theory Spec2Isabelle
  imports Main "HOL-Library.Log_Nat" "HOL-Library.Char_ord" "HOL-Library.List_Lexorder"
begin

section \<open>JavaScript numbers\<close>

text \<open>
  The route handlers compute with JavaScript \<^verbatim>\<open>number\<close>s, that is IEEE 754 binary64
  values under round-to-nearest, ties-to-even. A finite number is modelled by an integer
  significand and a binary exponent, \<open>Num m e\<close> standing for \<open>m * 2^e\<close>. Every
  operation returns the canonical representation: \<open>Num 0 0\<close> for zero, and otherwise
  \<open>2^52 \<le> \<bar>m\<bar> < 2^53\<close>. The exponent is unbounded: overflow to Infinity, subnormal
  numbers, NaN and the sign of zero are outside the model.
\<close>

datatype number = Num int int

definition zero :: number where
  "zero = Num 0 0"

definition is_zero :: "number \<Rightarrow> bool" where
  "is_zero x = (case x of Num m e \<Rightarrow> m = 0)"

text \<open>\<open>rnd n e\<close> is the binary64 value nearest to \<open>n * 2^e\<close> (ties to even).\<close>

definition rnd :: "int \<Rightarrow> int \<Rightarrow> number" where
  "rnd n e =
     (if n = 0 then zero
      else let a = \<bar>n\<bar>; b = bitlen a in
        if b \<le> 53 then Num (n * 2 ^ nat (53 - b)) (e - (53 - b))
        else let t = b - 53;
                 m = a div 2 ^ nat t;
                 r = a mod 2 ^ nat t;
                 half = 2 ^ nat (t - 1);
                 m' = (if half < r \<or> (r = half \<and> odd m) then m + 1 else m)
             in if m' = 2 ^ 53 then Num (sgn n * 2 ^ 52) (e + t + 1)
                else Num (sgn n * m') (e + t))"

text \<open>
  \<open>rnd_quot n d e\<close> is the binary64 value nearest to \<open>(n / d) * 2^e\<close> for \<open>d > 0\<close>:
  the quotient is computed to at least 55 bits and a sticky bit records a non-zero
  remainder, so that the final rounding is the rounding of the exact quotient.
\<close>

definition rnd_quot :: "int \<Rightarrow> int \<Rightarrow> int \<Rightarrow> number" where
  "rnd_quot n d e =
     (if n = 0 then zero
      else let a = \<bar>n\<bar>;
               s = nat (max 0 (55 + bitlen d - bitlen a));
               q = (a * 2 ^ s) div d;
               sticky = (if (a * 2 ^ s) mod d = 0 then 0 else 1)
           in rnd (sgn n * (2 * q + sticky)) (e - int s - 1))"

text \<open>\<open>x + y\<close>, \<open>x * y\<close> and \<open>x / y\<close> of JavaScript. Adding zero and multiplying by zero
  are exact. Division by zero gives Infinity or NaN in JavaScript, which the model has
  not: \<open>fdiv\<close> is only used with a non-zero divisor (the handlers divide by the constant
  100 only).\<close>

definition fadd :: "number \<Rightarrow> number \<Rightarrow> number" where
  "fadd x y =
     (if is_zero x then y else if is_zero y then x
      else case (x, y) of (Num m1 e1, Num m2 e2) \<Rightarrow>
        let e = min e1 e2 in rnd (m1 * 2 ^ nat (e1 - e) + m2 * 2 ^ nat (e2 - e)) e)"

definition fmul :: "number \<Rightarrow> number \<Rightarrow> number" where
  "fmul x y =
     (if is_zero x \<or> is_zero y then zero
      else case (x, y) of (Num m1 e1, Num m2 e2) \<Rightarrow> rnd (m1 * m2) (e1 + e2))"

definition fdiv :: "number \<Rightarrow> number \<Rightarrow> number" where
  "fdiv x y =
     (if is_zero x \<or> is_zero y then zero
      else case (x, y) of (Num m1 e1, Num m2 e2) \<Rightarrow> rnd_quot (sgn m2 * m1) \<bar>m2\<bar> (e1 - e2))"

text \<open>\<open>x < y\<close> of JavaScript on finite numbers: the comparison of the two values.\<close>

definition fless :: "number \<Rightarrow> number \<Rightarrow> bool" where
  "fless x y =
     (case (x, y) of (Num m1 e1, Num m2 e2) \<Rightarrow>
        let e = min e1 e2 in m1 * 2 ^ nat (e1 - e) < m2 * 2 ^ nat (e2 - e))"

text \<open>The number denoted by the decimal literal \<open>a / 10^k\<close> (as \<^verbatim>\<open>JSON.parse\<close> reads it),
  and the number of an integer literal.\<close>

definition decimal :: "int \<Rightarrow> nat \<Rightarrow> number" where
  "decimal a k = rnd_quot a (10 ^ k) 0"

definition integer :: "int \<Rightarrow> number" where
  "integer a = rnd a 0"

text \<open>The exact rational value of a number, used to compare numbers by value.\<close>

definition nval :: "number \<Rightarrow> rat" where
  "nval x = (case x of Num m e \<Rightarrow>
     if 0 \<le> e then of_int (m * 2 ^ nat e) else of_int m / of_int (2 ^ nat (- e)))"


section \<open>The store\<close>

text \<open>
  The persistent state behind the Prisma client: one list of rows per table. The schema is
  not among the sources, so rows carry the columns that the handlers read and write.
  Header and line fields that share a name in the source (\<^verbatim>\<open>taxAmount\<close>, \<^verbatim>\<open>status\<close>,
  \<^verbatim>\<open>lines\<close> ...) are told apart by a prefix. A date is its time value in milliseconds.
  An optional field is \<open>None\<close> when the JavaScript value is \<^verbatim>\<open>null\<close> or \<^verbatim>\<open>undefined\<close>.
\<close>

type_synonym id = string

datatype order_status = DRAFT | SENT | CONFIRMED | CANCELLED

datatype doc_status = DOC_DRAFT | DOC_POSTED | DOC_CANCELLED

datatype role = ADMIN | CUSTOMER | VENDOR

text \<open>\<open>isAdmin\<close> is the answer of \<^verbatim>\<open>isAdmin(user)\<close> of \<^verbatim>\<open>lib/auth\<close>, which is not among
  the sources.\<close>

record user =
  role :: role
  contactId :: "id option"
  isAdmin :: bool

text \<open>A line of an order, and of an invoice or vendor bill (the columns are the same).\<close>

record line =
  productId :: id
  description :: "string option"
  quantity :: "number option"
  unitPrice :: "number option"
  taxRate :: "number option"
  lineTaxAmount :: number
  lineTotal :: number
  analyticalAccountId :: "id option"

text \<open>A sales order or purchase order; \<open>partnerId\<close> is \<^verbatim>\<open>customerId\<close> or \<^verbatim>\<open>vendorId\<close>.\<close>

record order =
  orderId :: id
  orderNumber :: string
  partnerId :: id
  orderDate :: int
  expectedDate :: "int option"
  status :: order_status
  subtotal :: number
  taxAmount :: number
  totalAmount :: number
  orderNotes :: "string option"
  lines :: "line list"

text \<open>An invoice or vendor bill; \<open>sourceOrderId\<close> is \<^verbatim>\<open>salesOrderId\<close> or
  \<^verbatim>\<open>purchaseOrderId\<close>, \<open>docNumber\<close> is \<^verbatim>\<open>invoiceNumber\<close> or \<^verbatim>\<open>billNumber\<close>, \<open>docDate\<close> is
  \<^verbatim>\<open>invoiceDate\<close> or \<^verbatim>\<open>billDate\<close>.\<close>

record document =
  docNumber :: string
  docPartnerId :: id
  sourceOrderId :: "id option"
  docDate :: int
  dueDate :: int
  docStatus :: doc_status
  docSubtotal :: number
  docTaxAmount :: number
  docTotalAmount :: number
  paidAmount :: number
  docNotes :: "string option"
  docLines :: "line list"

record sequence =
  name :: string
  prefix :: string
  nextNumber :: int
  padding :: nat

text \<open>A product, with the columns of the price validation; the descriptive columns
  (name, category, unit, HSN code ...) play no part in it and are left out.\<close>

record product =
  productRowId :: id
  code :: string
  purchasePrice :: "number option"
  salePrice :: "number option"
  isActive :: bool

record store =
  salesOrders :: "order list"
  invoices :: "document list"
  purchaseOrders :: "order list"
  vendorBills :: "document list"
  sequences :: "sequence list"
  products :: "product list"

text \<open>The response of a handler that fails: the HTTP status and the error message.\<close>

datatype http_error = Err nat string

section \<open>Strings of JavaScript\<close>

text \<open>\<^verbatim>\<open>n.toString()\<close> for an integer \<open>n\<close> that JavaScript represents exactly, and
  \<^verbatim>\<open>s.padStart(n, c)\<close> for a one-character pad. \<open>digits n\<close> is the decimal numeral of
  \<open>n \<ge> 0\<close>.\<close>

definition digit_char :: "nat \<Rightarrow> char" where
  "digit_char d = char_of (48 + d)"

function digits :: "int \<Rightarrow> string" where
  "digits n = (if n < 10 then [digit_char (nat n)] else digits (n div 10) @ [digit_char (nat (n mod 10))])"
  by pat_completeness auto

termination
  by (relation "measure nat") auto

declare digits.simps [simp del]

definition int_toString :: "int \<Rightarrow> string" where
  "int_toString i = (if i < 0 then CHR ''-'' # digits (- i) else digits i)"

definition padStart :: "nat \<Rightarrow> char \<Rightarrow> string \<Rightarrow> string" where
  "padStart n c s = replicate (n - length s) c @ s"

text \<open>\<^verbatim>\<open>s.toUpperCase()\<close> on ASCII letters and \<^verbatim>\<open>s.slice(0, n)\<close>.\<close>

definition toUpperCase :: "string \<Rightarrow> string" where
  "toUpperCase s = map (\<lambda>c. if CHR ''a'' \<le> c \<and> c \<le> CHR ''z'' then char_of (of_char c - (32::nat)) else c) s"

definition slice0 :: "nat \<Rightarrow> string \<Rightarrow> string" where
  "slice0 n s = take n s"

text \<open>\<^verbatim>\<open>s.replace(pat, rep)\<close> with a string pattern: the first occurrence is replaced.\<close>

fun replace_first :: "string \<Rightarrow> string \<Rightarrow> string \<Rightarrow> string" where
  "replace_first pat rep [] = (if pat = [] then rep else [])"
| "replace_first pat rep (c # cs) =
     (if take (length pat) (c # cs) = pat then rep @ drop (length pat) (c # cs)
      else c # replace_first pat rep cs)"

text \<open>
  The whole numbers of JavaScript. \<^verbatim>\<open>parseInt\<close> returns a \<^verbatim>\<open>number\<close>: a whole number that
  binary64 represents, an infinity, or \<open>NaN\<close>. A finite result is given by its value, an
  integer. \<open>binary64 n\<close> is the value of the binary64 number nearest to the integer \<open>n\<close>
  (ties to even); it differs from \<open>n\<close> only beyond \<open>2^53\<close>. \<open>to_number n\<close> is the
  \<^verbatim>\<open>number\<close> for the mathematical value \<open>n\<close>: it overflows to an infinity when the nearest
  value reaches \<open>2^1024\<close>.
\<close>

datatype jsint = NaN | PlusInfinity | MinusInfinity | Finite int

definition whole_value :: "number \<Rightarrow> int" where
  "whole_value x = (case x of Num m e \<Rightarrow> if 0 \<le> e then m * 2 ^ nat e else m div 2 ^ nat (- e))"

definition binary64 :: "int \<Rightarrow> int" where
  "binary64 n = whole_value (rnd n 0)"

definition to_number :: "int \<Rightarrow> jsint" where
  "to_number n =
     (let v = binary64 n
      in if 2 ^ 1024 \<le> v then PlusInfinity
         else if v \<le> - (2 ^ 1024) then MinusInfinity
         else Finite v)"

text \<open>\<^verbatim>\<open>parseInt(s)\<close> with no radix: leading white space, an optional sign, then the digits:
  hexadecimal digits after the prefix \<^verbatim>\<open>0x\<close> or \<^verbatim>\<open>0X\<close>, decimal digits otherwise; \<open>NaN\<close> when
  there is no digit. The result is the number nearest to the value of the digits.
  Strings are ASCII here, so that the white space is the blank, the tabulators, the form
  feed and the line ends.\<close>

definition is_digit :: "char \<Rightarrow> bool" where
  "is_digit c = (CHR ''0'' \<le> c \<and> c \<le> CHR ''9'')"

definition is_blank :: "char \<Rightarrow> bool" where
  "is_blank c = (c = CHR '' '' \<or> c = CHR 0x09 \<or> c = CHR 0x0A \<or> c = CHR 0x0B \<or> c = CHR 0x0C
                 \<or> c = CHR 0x0D)"

definition digits_value :: "string \<Rightarrow> int" where
  "digits_value ds = foldl (\<lambda>acc c. 10 * acc + (int (of_char c) - 48)) 0 ds"

definition is_hex_digit :: "char \<Rightarrow> bool" where
  "is_hex_digit c = (is_digit c \<or> (CHR ''a'' \<le> c \<and> c \<le> CHR ''f'') \<or> (CHR ''A'' \<le> c \<and> c \<le> CHR ''F''))"

definition hex_digit_value :: "char \<Rightarrow> int" where
  "hex_digit_value c =
     (if is_digit c then int (of_char c) - 48
      else if CHR ''a'' \<le> c then int (of_char c) - 87
      else int (of_char c) - 55)"

definition hex_value :: "string \<Rightarrow> int" where
  "hex_value ds = foldl (\<lambda>acc c. 16 * acc + hex_digit_value c) 0 ds"

definition parseInt :: "string \<Rightarrow> jsint" where
  "parseInt s =
     (let t = dropWhile is_blank s;
          neg = (case t of [] \<Rightarrow> False | c # _ \<Rightarrow> c = CHR ''-'');
          u = (case t of [] \<Rightarrow> [] | c # r \<Rightarrow> if c = CHR ''-'' \<or> c = CHR ''+'' then r else t);
          hex = (take 2 u = ''0x'' \<or> take 2 u = ''0X'');
          z = (if hex then takeWhile is_hex_digit (drop 2 u) else takeWhile is_digit u);
          mathInt = (if hex then hex_value z else digits_value z)
      in if z = [] then NaN else to_number (if neg then - mathInt else mathInt))"

text \<open>\<^verbatim>\<open>x + 1\<close> for the result \<open>x\<close> of \<^verbatim>\<open>parseInt\<close>: the sum is rounded to binary64, so that
  from \<open>2^53\<close> on it may be \<open>x\<close> itself. \<open>NaN\<close> and the infinities stay.\<close>

definition plus_one :: "jsint \<Rightarrow> jsint" where
  "plus_one x = (case x of Finite v \<Rightarrow> to_number (v + 1) | _ \<Rightarrow> x)"

text \<open>
  \<^verbatim>\<open>String(x)\<close> for a whole number. JavaScript prints the decimal numeral with the fewest
  significant digits among those that binary64 rounds to \<open>x\<close>, and the one nearest to
  \<open>x\<close> if there are several. For a positive whole number \<open>v\<close> that numeral is a whole
  number \<open>shortest v e\<close>: the search tries the multiples of \<open>10^e\<close> next to \<open>v\<close>, below and
  above, for \<open>e\<close> counting down from the number of digits of \<open>v\<close> less one, and ends with
  \<open>v\<close> itself. Up to \<open>2^53\<close> the result is \<open>v\<close>. The numeral is written in full below
  \<open>10^21\<close>, and with an exponent from there on.
\<close>

fun shortest :: "int \<Rightarrow> nat \<Rightarrow> int" where
  "shortest v 0 = v"
| "shortest v (Suc e) =
     (let p = 10 ^ Suc e;
          lo = (v div p) * p;
          hi = lo + p
      in case filter (\<lambda>y. 0 < y \<and> binary64 y = v) [lo, hi] of
           [] \<Rightarrow> shortest v e
         | [y] \<Rightarrow> y
         | y # z # _ \<Rightarrow> if v - y \<le> z - v then y else z)"

definition significant :: "string \<Rightarrow> string" where
  "significant ds = rev (dropWhile (\<lambda>c. c = CHR ''0'') (rev ds))"

definition positive_toString :: "int \<Rightarrow> string" where
  "positive_toString v =
     (let y = shortest v (length (digits v) - 1);
          ds = digits y
      in if y < 10 ^ 21 then ds
         else let s = significant ds;
                  ex = ''e+'' @ digits (int (length ds) - 1)
              in if length s = 1 then s @ ex else hd s # CHR ''.'' # tl s @ ex)"

definition toString :: "jsint \<Rightarrow> string" where
  "toString x =
     (case x of
        NaN \<Rightarrow> ''NaN''
      | PlusInfinity \<Rightarrow> ''Infinity''
      | MinusInfinity \<Rightarrow> ''-Infinity''
      | Finite v \<Rightarrow>
          if v = 0 then ''0''
          else if v < 0 then CHR ''-'' # positive_toString (- v)
          else positive_toString v)"

text \<open>\<^verbatim>\<open>String(x + 1)\<close> for the result \<open>x\<close> of \<^verbatim>\<open>parseInt\<close>.\<close>

definition succ_toString :: "jsint \<Rightarrow> string" where
  "succ_toString x = toString (plus_one x)"

section \<open>The sequence generator\<close>

text \<open>\<^verbatim>\<open>SEQUENCE_DEFAULTS\<close> and \<^verbatim>\<open>getNextSequence\<close> of \<^verbatim>\<open>lib/utils\<close>. The counter is an
  integer column, whose range the schema declares; the schema is not among the sources, and
  the counter is an unbounded integer here. The names that every JavaScript object
  inherits, such as \<^verbatim>\<open>constructor\<close>, are looked up like the other names that the table does not
  list.\<close>

definition SEQUENCE_DEFAULTS :: "string \<Rightarrow> (string \<times> nat) option" where
  "SEQUENCE_DEFAULTS n =
     (if n = ''contact'' then Some (''CONT'', 5)
      else if n = ''product'' then Some (''PROD'', 5)
      else if n = ''purchaseOrder'' then Some (''PO'', 5)
      else if n = ''vendorBill'' then Some (''BILL'', 5)
      else if n = ''salesOrder'' then Some (''SO'', 5)
      else if n = ''invoice'' then Some (''INV'', 5)
      else if n = ''payment'' then Some (''PAY'', 5)
      else if n = ''analyticalAccount'' then Some (''AA'', 4)
      else None)"

definition find_sequence :: "string \<Rightarrow> sequence list \<Rightarrow> sequence option" where
  "find_sequence n sqs = find (\<lambda>q. name q = n) sqs"

definition getNextSequence :: "string \<Rightarrow> store \<Rightarrow> string \<times> store" where
  "getNextSequence sequenceName st =
     (let sequence = (case find_sequence sequenceName (sequences st) of
                        Some q \<Rightarrow> q
                      | None \<Rightarrow>
                          (let defaults = (case SEQUENCE_DEFAULTS sequenceName of
                                             Some d \<Rightarrow> d
                                           | None \<Rightarrow> (slice0 4 (toUpperCase sequenceName), 5))
                           in \<lparr>name = sequenceName, prefix = fst defaults, nextNumber = 1,
                               padding = snd defaults\<rparr>));
          rows = (case find_sequence sequenceName (sequences st) of
                    Some q \<Rightarrow> sequences st
                  | None \<Rightarrow> sequences st @ [sequence]);
          updated = sequence\<lparr>nextNumber := nextNumber sequence + 1\<rparr>;
          rows' = map (\<lambda>q. if name q = sequenceName then q\<lparr>nextNumber := nextNumber q + 1\<rparr> else q) rows;
          number = padStart (padding updated) (CHR ''0'') (int_toString (nextNumber updated - 1))
      in (prefix updated @ ''-'' @ number, st\<lparr>sequences := rows'\<rparr>))"

section \<open>Products\<close>

text \<open>The request body of the product handlers: a price that the body leaves out is
  \<open>None\<close>. A price that the body gives as \<^verbatim>\<open>null\<close> is not told apart from one that it
  leaves out.\<close>

record product_body =
  body_purchasePrice :: "number option"
  body_salePrice :: "number option"
  body_isActive :: "bool option"

text \<open>\<^verbatim>\<open>a < b\<close> on two body values: false as soon as one is \<^verbatim>\<open>undefined\<close>.\<close>

definition js_less :: "number option \<Rightarrow> number option \<Rightarrow> bool" where
  "js_less a b = (case (a, b) of (Some x, Some y) \<Rightarrow> fless x y | _ \<Rightarrow> False)"

text \<open>\<^verbatim>\<open>POST /api/products\<close>. \<open>newId\<close> is the id that the store gives to the new row.\<close>

definition products_POST :: "id \<Rightarrow> user option \<Rightarrow> product_body \<Rightarrow> store \<Rightarrow> (http_error + product) \<times> store" where
  "products_POST newId usr body st =
     (case usr of
        None \<Rightarrow> (Inl (Err 401 ''Unauthorized''), st)
      | Some u \<Rightarrow>
          if \<not> isAdmin u then (Inl (Err 401 ''Unauthorized''), st)
          else if js_less (body_salePrice body) (body_purchasePrice body)
          then (Inl (Err 400 ''Sale Price cannot be less than Purchase Price''), st)
          else let (c, st1) = getNextSequence ''product'' st;
                   p = \<lparr>productRowId = newId, code = c,
                        purchasePrice = body_purchasePrice body,
                        salePrice = body_salePrice body, isActive = True\<rparr>
               in (Inr p, st1\<lparr>products := products st1 @ [p]\<rparr>))"

text \<open>\<^verbatim>\<open>PUT /api/products/[id]\<close>. A field that the body leaves out keeps its stored value;
  the update of a missing row throws, which the handler answers with status 500.\<close>

definition update_product :: "product_body \<Rightarrow> product \<Rightarrow> product" where
  "update_product body p =
     p\<lparr>purchasePrice := (case body_purchasePrice body of None \<Rightarrow> purchasePrice p | Some v \<Rightarrow> Some v),
       salePrice := (case body_salePrice body of None \<Rightarrow> salePrice p | Some v \<Rightarrow> Some v),
       isActive := (case body_isActive body of None \<Rightarrow> isActive p | Some v \<Rightarrow> v)\<rparr>"

definition product_PUT :: "user option \<Rightarrow> id \<Rightarrow> product_body \<Rightarrow> store \<Rightarrow> (http_error + product) \<times> store" where
  "product_PUT usr i body st =
     (case usr of
        None \<Rightarrow> (Inl (Err 401 ''Unauthorized''), st)
      | Some u \<Rightarrow>
          if \<not> isAdmin u then (Inl (Err 401 ''Unauthorized''), st)
          else if body_salePrice body \<noteq> None \<and> body_purchasePrice body \<noteq> None
                  \<and> js_less (body_salePrice body) (body_purchasePrice body)
          then (Inl (Err 400 ''Sale Price cannot be less than Purchase Price''), st)
          else case find (\<lambda>p. productRowId p = i) (products st) of
                 None \<Rightarrow> (Inl (Err 500 ''Failed to update product''), st)
               | Some p \<Rightarrow>
                   (Inr (update_product body p),
                    st\<lparr>products := map (\<lambda>p. if productRowId p = i then update_product body p else p)
                                       (products st)\<rparr>))"


section \<open>Orders and derived documents\<close>

definition find_order :: "id \<Rightarrow> order list \<Rightarrow> order option" where
  "find_order i os = find (\<lambda>x. orderId x = i) os"

text \<open>\<^verbatim>\<open>prisma.order.update({ where: { id }, data })\<close>: the updated row and the new table, or
  \<open>None\<close> when no row has the id (the call throws).\<close>

definition update_order :: "id \<Rightarrow> (order \<Rightarrow> order) \<Rightarrow> order list \<Rightarrow> (order \<times> order list) option" where
  "update_order i f os =
     (case find_order i os of
        None \<Rightarrow> None
      | Some x \<Rightarrow> Some (f x, map (\<lambda>y. if orderId y = i then f y else y) os))"

text \<open>The invoices (or bills) whose source order is \<open>i\<close>.\<close>

definition linked :: "id \<Rightarrow> document list \<Rightarrow> document list" where
  "linked i ds = filter (\<lambda>d. sourceOrderId d = Some i) ds"

text \<open>\<^verbatim>\<open>findFirst({ orderBy: { invoiceNumber: 'desc' } })\<close>: a row with the greatest number in
  the order of strings.\<close>

definition last_by_number :: "document list \<Rightarrow> document option" where
  "last_by_number ds =
     (case ds of
        [] \<Rightarrow> None
      | d # r \<Rightarrow> Some (foldl (\<lambda>b x. if docNumber b < docNumber x then x else b) d r))"

text \<open>The number of the next invoice or bill, as every handler computes it: the last
  number without its prefix (\<^verbatim>\<open>'INV-'\<close> or \<^verbatim>\<open>'BILL-'\<close>) is parsed, incremented and padded
  to five digits.\<close>

definition next_number :: "string \<Rightarrow> document list \<Rightarrow> string" where
  "next_number pre ds =
     (let lastNum = (case last_by_number ds of
                       None \<Rightarrow> Finite 0
                     | Some lastDoc \<Rightarrow> parseInt (replace_first pre [] (docNumber lastDoc)))
      in pre @ padStart 5 (CHR ''0'') (succ_toString lastNum))"

text \<open>Modelled from the spec: the schema, which declares the constraints of the tables, is
  not among the sources; by section 3 of the specification the number of a derived
  document is unique, so the creation of a row whose number is taken throws.\<close>

definition insert_document :: "document \<Rightarrow> document list \<Rightarrow> document list option" where
  "insert_document d ds = (if docNumber d \<in> set (map docNumber ds) then None else Some (ds @ [d]))"

text \<open>The two ways in which the handlers copy an order line into the new document: field
  by field, and (in the \<^verbatim>\<open>PATCH\<close> of a sales order) with \<^verbatim>\<open>|| ''\<close> on the description and
  \<^verbatim>\<open>|| 0\<close> on the tax rate and tax amount. A stored amount is a Decimal object, which is
  never falsy.\<close>

definition copy_line :: "line \<Rightarrow> line" where
  "copy_line l =
     \<lparr>productId = productId l, description = description l, quantity = quantity l,
      unitPrice = unitPrice l, taxRate = taxRate l, lineTaxAmount = lineTaxAmount l,
      lineTotal = lineTotal l, analyticalAccountId = analyticalAccountId l\<rparr>"

definition copy_line_defaults :: "line \<Rightarrow> line" where
  "copy_line_defaults l =
     \<lparr>productId = productId l,
      description = Some (case description l of None \<Rightarrow> [] | Some s \<Rightarrow> s),
      quantity = quantity l,
      unitPrice = unitPrice l,
      taxRate = Some (case taxRate l of None \<Rightarrow> zero | Some r \<Rightarrow> r),
      lineTaxAmount = lineTaxAmount l,
      lineTotal = lineTotal l, analyticalAccountId = analyticalAccountId l\<rparr>"

text \<open>
  The block \<^verbatim>\<open>if (body.status === 'CONFIRMED') { try { ... } catch { ... } }\<close> that the
  handlers share, on the table \<open>ds\<close> of invoices or bills: nothing happens when a
  document of the order \<open>i\<close> exists; otherwise a document is built from the order and
  created, and a failing creation is caught and leaves the table as it was. \<open>pre\<close> is the
  prefix of the number, \<open>st0\<close> the initial status, \<open>note\<close> the text of the notes around the
  order number, \<open>copy\<close> the copy of a line, \<open>now\<close> the clock (\<^verbatim>\<open>new Date()\<close> and
  \<^verbatim>\<open>Date.now()\<close>).
\<close>

definition derive_document ::
  "string \<Rightarrow> doc_status \<Rightarrow> (string \<Rightarrow> string) \<Rightarrow> (line \<Rightarrow> line) \<Rightarrow> int \<Rightarrow> id \<Rightarrow> order
     \<Rightarrow> document list \<Rightarrow> document list" where
  "derive_document pre st0 note copy now i order ds =
     (case linked i ds of
        existing # _ \<Rightarrow> ds
      | [] \<Rightarrow>
          (let d = \<lparr>docNumber = next_number pre ds,
                    docPartnerId = partnerId order,
                    sourceOrderId = Some i,
                    docDate = now,
                    dueDate = (case expectedDate order of
                                 Some t \<Rightarrow> t
                               | None \<Rightarrow> now + 30 * 24 * 60 * 60 * 1000),
                    docStatus = st0,
                    docSubtotal = subtotal order,
                    docTaxAmount = taxAmount order,
                    docTotalAmount = totalAmount order,
                    paidAmount = zero,
                    docNotes = Some (note (orderNumber order)),
                    docLines = map copy (lines order)\<rparr>
           in case insert_document d ds of None \<Rightarrow> ds | Some ds' \<Rightarrow> ds'))"

definition invoice_note :: "string \<Rightarrow> string" where
  "invoice_note n = ''Invoice created from Sales Order '' @ n"

definition bill_note :: "string \<Rightarrow> string" where
  "bill_note n = ''Bill created from Purchase Order '' @ n"

definition vendor_bill_note :: "string \<Rightarrow> string" where
  "vendor_bill_note n = ''Bill created from Purchase Order '' @ n @ '' - Confirmed by Vendor''"

text \<open>The request body of the order handlers. A date of the body is the time value that
  \<^verbatim>\<open>new Date(...)\<close> gives it; \<open>body_notes\<close> is \<open>None\<close> when the body has no notes and
  \<open>Some None\<close> when they are \<^verbatim>\<open>null\<close>. The numbers of a line are JSON numbers.\<close>

record line_input =
  in_productId :: id
  in_description :: "string option"
  in_quantity :: "number option"
  in_unitPrice :: "number option"
  in_taxRate :: "number option"
  in_analyticalAccountId :: "id option"

record order_body =
  body_partnerId :: "id option"
  body_orderDate :: "int option"
  body_expectedDate :: "int option"
  body_status :: "order_status option"
  body_notes :: "string option option"
  body_lines :: "line_input list option"

text \<open>\<^verbatim>\<open>parseDecimal\<close> of \<^verbatim>\<open>lib/utils\<close> on a number or a missing value.\<close>

definition parseDecimal :: "number option \<Rightarrow> number" where
  "parseDecimal v = (case v of Some x \<Rightarrow> x | None \<Rightarrow> zero)"

text \<open>\<^verbatim>\<open>v || 0\<close> on a number or a missing value.\<close>

definition or_zero :: "number option \<Rightarrow> number option" where
  "or_zero v = (case v of Some x \<Rightarrow> Some x | None \<Rightarrow> Some zero)"

text \<open>
  The \<^verbatim>\<open>map\<close> over the lines in \<^verbatim>\<open>POST /api/purchase-orders\<close>, with the two accumulators
  \<^verbatim>\<open>subtotal\<close> and \<^verbatim>\<open>taxAmount\<close> (here \<open>sub\<close> and \<open>tax\<close>) that its callback adds to:
  the rows to create and the final values of the accumulators.
\<close>

fun post_lines :: "line_input list \<Rightarrow> number \<Rightarrow> number \<Rightarrow> line list \<times> number \<times> number" where
  "post_lines [] sub tax = ([], sub, tax)"
| "post_lines (line # rest) sub tax =
     (let lineSubtotal = fmul (parseDecimal (in_quantity line)) (parseDecimal (in_unitPrice line));
          lineTax = fmul lineSubtotal (fdiv (parseDecimal (or_zero (in_taxRate line))) (integer 100));
          lineSum = fadd lineSubtotal lineTax;
          row = \<lparr>productId = in_productId line,
                  description = Some (case in_description line of None \<Rightarrow> [] | Some s \<Rightarrow> s),
                  quantity = in_quantity line,
                  unitPrice = in_unitPrice line,
                  taxRate = or_zero (in_taxRate line),
                  lineTaxAmount = lineTax,
                  lineTotal = lineSum,
                  analyticalAccountId = in_analyticalAccountId line\<rparr>
      in case post_lines rest (fadd sub lineSubtotal) (fadd tax lineTax) of
           (rows, s, t) \<Rightarrow> (row # rows, s, t))"

text \<open>The same \<^verbatim>\<open>map\<close> in the \<^verbatim>\<open>PUT\<close> handlers of sales and purchase orders.\<close>

fun put_lines :: "line_input list \<Rightarrow> number \<Rightarrow> number \<Rightarrow> line list \<times> number \<times> number" where
  "put_lines [] sub tax = ([], sub, tax)"
| "put_lines (line # rest) sub tax =
     (let lineSubtotal = fmul (parseDecimal (in_quantity line)) (parseDecimal (in_unitPrice line));
          lineTax = fmul lineSubtotal (fdiv (parseDecimal (in_taxRate line)) (integer 100));
          lineSum = fadd lineSubtotal lineTax;
          row = \<lparr>productId = in_productId line,
                  description = in_description line,
                  quantity = in_quantity line,
                  unitPrice = in_unitPrice line,
                  taxRate = in_taxRate line,
                  lineTaxAmount = lineTax,
                  lineTotal = lineSum,
                  analyticalAccountId = in_analyticalAccountId line\<rparr>
      in case put_lines rest (fadd sub lineSubtotal) (fadd tax lineTax) of
           (rows, s, t) \<Rightarrow> (row # rows, s, t))"

text \<open>The header update of the \<^verbatim>\<open>PUT\<close> handlers: with new lines, and without.\<close>

definition put_with_lines :: "order_body \<Rightarrow> line list \<Rightarrow> number \<Rightarrow> number \<Rightarrow> order \<Rightarrow> order" where
  "put_with_lines body rows sub tax ord =
     ord\<lparr>partnerId := (case body_partnerId body of None \<Rightarrow> partnerId ord | Some p \<Rightarrow> p),
         orderDate := (case body_orderDate body of None \<Rightarrow> orderDate ord | Some t \<Rightarrow> t),
         expectedDate := (case body_expectedDate body of None \<Rightarrow> expectedDate ord | Some t \<Rightarrow> Some t),
         status := (case body_status body of None \<Rightarrow> status ord | Some s \<Rightarrow> s),
         subtotal := sub,
         taxAmount := tax,
         totalAmount := fadd sub tax,
         orderNotes := (case body_notes body of None \<Rightarrow> orderNotes ord | Some n \<Rightarrow> n),
         lines := rows\<rparr>"

definition put_without_lines :: "order_body \<Rightarrow> order \<Rightarrow> order" where
  "put_without_lines body ord =
     ord\<lparr>status := (case body_status body of None \<Rightarrow> status ord | Some s \<Rightarrow> s),
         expectedDate := (case body_expectedDate body of None \<Rightarrow> expectedDate ord | Some t \<Rightarrow> Some t),
         orderNotes := (case body_notes body of None \<Rightarrow> orderNotes ord | Some n \<Rightarrow> n)\<rparr>"

definition set_status :: "order_status option \<Rightarrow> order \<Rightarrow> order" where
  "set_status s ord = ord\<lparr>status := (case s of None \<Rightarrow> status ord | Some v \<Rightarrow> v)\<rparr>"

subsection \<open>Sales orders: \<^verbatim>\<open>api/sales-orders/[id]/route.ts\<close>\<close>

text \<open>
  In every handler \<open>usr\<close> is the result of \<^verbatim>\<open>getCurrentUser\<close>, \<open>i\<close> the id of the route and
  \<open>now\<close> the clock; the result is the error response or the payload of the success
  response, and the store that the handler leaves. The e-mail that a handler sends when
  the status becomes \<^verbatim>\<open>SENT\<close> does not touch the store and is left out.
  \<open>applyAuto\<close> is \<^verbatim>\<open>applyAutoAnalyticalToLines\<close> of \<^verbatim>\<open>lib/auto-analytical\<close>, which is not
  among the sources.
\<close>

definition sales_order_PATCH ::
  "int \<Rightarrow> user option \<Rightarrow> id \<Rightarrow> order_body \<Rightarrow> store \<Rightarrow> (http_error + order) \<times> store" where
  "sales_order_PATCH now usr i body st =
     (case usr of
        None \<Rightarrow> (Inl (Err 401 ''Unauthorized''), st)
      | Some u \<Rightarrow>
          if \<not> isAdmin u then (Inl (Err 401 ''Unauthorized''), st)
          else case update_order i (set_status (body_status body)) (salesOrders st) of
                 None \<Rightarrow> (Inl (Err 500 ''Failed to update status''), st)
               | Some (order, os) \<Rightarrow>
                   (let st1 = st\<lparr>salesOrders := os\<rparr> in
                    (Inr order,
                     if body_status body = Some CONFIRMED
                     then st1\<lparr>invoices := derive_document ''INV-'' DOC_POSTED invoice_note
                                              copy_line_defaults now i order (invoices st1)\<rparr>
                     else st1)))"

definition sales_order_PUT ::
  "(line_input list \<Rightarrow> line_input list) \<Rightarrow> int \<Rightarrow> user option \<Rightarrow> id \<Rightarrow> order_body \<Rightarrow> store
     \<Rightarrow> (http_error + order) \<times> store" where
  "sales_order_PUT applyAuto now usr i body st =
     (case usr of
        None \<Rightarrow> (Inl (Err 401 ''Unauthorized''), st)
      | Some u \<Rightarrow>
          if \<not> isAdmin u then (Inl (Err 401 ''Unauthorized''), st)
          else case body_lines body of
                 Some ls \<Rightarrow>
                   (case put_lines (applyAuto ls) zero zero of
                      (rows, sub, tax) \<Rightarrow>
                        (case update_order i (put_with_lines body rows sub tax) (salesOrders st) of
                           None \<Rightarrow> (Inl (Err 500 ''Failed to update sales order''), st)
                         | Some (order, os) \<Rightarrow> (Inr order, st\<lparr>salesOrders := os\<rparr>)))
               | None \<Rightarrow>
                   (case update_order i (put_without_lines body) (salesOrders st) of
                      None \<Rightarrow> (Inl (Err 500 ''Failed to update sales order''), st)
                    | Some (order, os) \<Rightarrow>
                        (let st1 = st\<lparr>salesOrders := os\<rparr> in
                         (Inr order,
                          if body_status body = Some CONFIRMED
                          then st1\<lparr>invoices := derive_document ''INV-'' DOC_POSTED invoice_note
                                                   copy_line now i order (invoices st1)\<rparr>
                          else st1))))"

definition sales_order_DELETE :: "user option \<Rightarrow> id \<Rightarrow> store \<Rightarrow> (http_error + unit) \<times> store" where
  "sales_order_DELETE usr i st =
     (case usr of
        None \<Rightarrow> (Inl (Err 401 ''Unauthorized''), st)
      | Some u \<Rightarrow>
          if \<not> isAdmin u then (Inl (Err 401 ''Unauthorized''), st)
          else if 0 < length (linked i (invoices st))
          then (Inl (Err 400 ''Cannot delete sales order with linked invoices''), st)
          else case update_order i (set_status (Some CANCELLED)) (salesOrders st) of
                 None \<Rightarrow> (Inl (Err 500 ''Failed to delete sales order''), st)
               | Some (order, os) \<Rightarrow> (Inr (), st\<lparr>salesOrders := os\<rparr>))"

subsection \<open>Purchase orders: \<^verbatim>\<open>api/purchase-orders/route.ts\<close> and \<^verbatim>\<open>api/purchase-orders/[id]/route.ts\<close>\<close>

text \<open>\<^verbatim>\<open>POST /api/purchase-orders\<close>; \<open>newId\<close> is the id that the store gives to the new order.
  The creation throws when the body names no vendor.\<close>

definition purchase_orders_POST ::
  "(line_input list \<Rightarrow> line_input list) \<Rightarrow> int \<Rightarrow> id \<Rightarrow> user option \<Rightarrow> order_body \<Rightarrow> store
     \<Rightarrow> (http_error + order) \<times> store" where
  "purchase_orders_POST applyAuto now newId usr body st =
     (case usr of
        None \<Rightarrow> (Inl (Err 401 ''Unauthorized''), st)
      | Some u \<Rightarrow>
          if \<not> isAdmin u then (Inl (Err 401 ''Unauthorized''), st)
          else case getNextSequence ''purchase_order'' st of
            (number, st1) \<Rightarrow>
              (case (body_lines body, body_partnerId body) of
                 (Some ls, Some vendor) \<Rightarrow>
                   (case post_lines (applyAuto ls) zero zero of
                      (rows, sub, tax) \<Rightarrow>
                        (let order = \<lparr>orderId = newId,
                                      orderNumber = number,
                                      partnerId = vendor,
                                      orderDate = (case body_orderDate body of Some t \<Rightarrow> t | None \<Rightarrow> now),
                                      expectedDate = body_expectedDate body,
                                      status = (case body_status body of Some s \<Rightarrow> s | None \<Rightarrow> DRAFT),
                                      subtotal = sub,
                                      taxAmount = tax,
                                      totalAmount = fadd sub tax,
                                      orderNotes = (case body_notes body of None \<Rightarrow> None | Some n \<Rightarrow> n),
                                      lines = rows\<rparr>
                         in (Inr order, st1\<lparr>purchaseOrders := purchaseOrders st1 @ [order]\<rparr>)))
               | _ \<Rightarrow> (Inl (Err 500 ''Failed to create purchase order''), st1)))"

definition purchase_order_PUT ::
  "(line_input list \<Rightarrow> line_input list) \<Rightarrow> int \<Rightarrow> user option \<Rightarrow> id \<Rightarrow> order_body \<Rightarrow> store
     \<Rightarrow> (http_error + order) \<times> store" where
  "purchase_order_PUT applyAuto now usr i body st =
     (case usr of
        None \<Rightarrow> (Inl (Err 401 ''Unauthorized''), st)
      | Some u \<Rightarrow>
          if \<not> isAdmin u then (Inl (Err 401 ''Unauthorized''), st)
          else case body_lines body of
                 Some ls \<Rightarrow>
                   (case put_lines (applyAuto ls) zero zero of
                      (rows, sub, tax) \<Rightarrow>
                        (case update_order i (put_with_lines body rows sub tax) (purchaseOrders st) of
                           None \<Rightarrow> (Inl (Err 500 ''Failed to update purchase order''), st)
                         | Some (order, os) \<Rightarrow>
                             (let st1 = st\<lparr>purchaseOrders := os\<rparr> in
                              (Inr order,
                               if body_status body = Some CONFIRMED
                               then st1\<lparr>vendorBills := derive_document ''BILL-'' DOC_POSTED bill_note
                                                           copy_line now i order (vendorBills st1)\<rparr>
                               else st1))))
               | None \<Rightarrow>
                   (case update_order i (put_without_lines body) (purchaseOrders st) of
                      None \<Rightarrow> (Inl (Err 500 ''Failed to update purchase order''), st)
                    | Some (order, os) \<Rightarrow>
                        (let st1 = st\<lparr>purchaseOrders := os\<rparr> in
                         (Inr order,
                          if body_status body = Some CONFIRMED
                          then st1\<lparr>vendorBills := derive_document ''BILL-'' DOC_DRAFT bill_note
                                                      copy_line now i order (vendorBills st1)\<rparr>
                          else st1))))"

definition purchase_order_DELETE :: "user option \<Rightarrow> id \<Rightarrow> store \<Rightarrow> (http_error + unit) \<times> store" where
  "purchase_order_DELETE usr i st =
     (case usr of
        None \<Rightarrow> (Inl (Err 401 ''Unauthorized''), st)
      | Some u \<Rightarrow>
          if \<not> isAdmin u then (Inl (Err 401 ''Unauthorized''), st)
          else if 0 < length (linked i (vendorBills st))
          then (Inl (Err 400 ''Cannot delete purchase order with linked bills''), st)
          else case update_order i (set_status (Some CANCELLED)) (purchaseOrders st) of
                 None \<Rightarrow> (Inl (Err 500 ''Failed to delete purchase order''), st)
               | Some (order, os) \<Rightarrow> (Inr (), st\<lparr>purchaseOrders := os\<rparr>))"

subsection \<open>The vendor's confirmation: \<^verbatim>\<open>api/vendor/orders/[id]/confirm/route.ts\<close>\<close>

definition vendor_confirm_POST ::
  "int \<Rightarrow> user option \<Rightarrow> id \<Rightarrow> store \<Rightarrow> (http_error + order) \<times> store" where
  "vendor_confirm_POST now usr i st =
     (case usr of
        None \<Rightarrow> (Inl (Err 401 ''Unauthorized''), st)
      | Some u \<Rightarrow>
          if role u \<noteq> VENDOR then (Inl (Err 403 ''Access denied. Vendor access required.''), st)
          else if contactId u = None \<or> contactId u = Some []
          then (Inl (Err 400 ''Vendor profile not linked''), st)
          else case find_order i (purchaseOrders st) of
                 None \<Rightarrow> (Inl (Err 404 ''Order not found''), st)
               | Some order \<Rightarrow>
                   if Some (partnerId order) \<noteq> contactId u
                   then (Inl (Err 403 ''Access denied. This order does not belong to you.''), st)
                   else if status order \<noteq> SENT
                   then (Inl (Err 400 ''Only sent orders can be confirmed''), st)
                   else case update_order i (set_status (Some CONFIRMED)) (purchaseOrders st) of
                          None \<Rightarrow> (Inl (Err 500 ''Failed to confirm order''), st)
                        | Some (updatedOrder, os) \<Rightarrow>
                            (let st1 = st\<lparr>purchaseOrders := os\<rparr> in
                             (Inr updatedOrder,
                              st1\<lparr>vendorBills := derive_document ''BILL-'' DOC_DRAFT vendor_bill_note
                                                     copy_line now i order (vendorBills st1)\<rparr>)))"

section \<open>Runs of requests\<close>

text \<open>The requests that the modelled handlers serve, and the store after a sequence of
  requests, each handled to its end before the next one starts.\<close>

datatype request =
    SalesOrderPATCH int "user option" id order_body
  | SalesOrderPUT int "user option" id order_body
  | SalesOrderDELETE "user option" id
  | PurchaseOrdersPOST int id "user option" order_body
  | PurchaseOrderPUT int "user option" id order_body
  | PurchaseOrderDELETE "user option" id
  | VendorConfirmPOST int "user option" id
  | ProductsPOST id "user option" product_body
  | ProductPUT "user option" id product_body

fun handle :: "(line_input list \<Rightarrow> line_input list) \<Rightarrow> request \<Rightarrow> store \<Rightarrow> store" where
  "handle applyAuto (SalesOrderPATCH now usr i body) st = snd (sales_order_PATCH now usr i body st)"
| "handle applyAuto (SalesOrderPUT now usr i body) st = snd (sales_order_PUT applyAuto now usr i body st)"
| "handle applyAuto (SalesOrderDELETE usr i) st = snd (sales_order_DELETE usr i st)"
| "handle applyAuto (PurchaseOrdersPOST now newId usr body) st =
     snd (purchase_orders_POST applyAuto now newId usr body st)"
| "handle applyAuto (PurchaseOrderPUT now usr i body) st =
     snd (purchase_order_PUT applyAuto now usr i body st)"
| "handle applyAuto (PurchaseOrderDELETE usr i) st = snd (purchase_order_DELETE usr i st)"
| "handle applyAuto (VendorConfirmPOST now usr i) st = snd (vendor_confirm_POST now usr i st)"
| "handle applyAuto (ProductsPOST newId usr body) st = snd (products_POST newId usr body st)"
| "handle applyAuto (ProductPUT usr i body) st = snd (product_PUT usr i body st)"

definition run :: "(line_input list \<Rightarrow> line_input list) \<Rightarrow> request list \<Rightarrow> store \<Rightarrow> store" where
  "run applyAuto reqs st = foldl (\<lambda>s r. handle applyAuto r s) st reqs"

text \<open>No order is the source of two documents of a table.\<close>

definition at_most_one :: "document list \<Rightarrow> bool" where
  "at_most_one ds = (\<forall>x. length (linked x ds) \<le> 1)"

definition unique_derived :: "store \<Rightarrow> bool" where
  "unique_derived st = (at_most_one (invoices st) \<and> at_most_one (vendorBills st))"

text \<open>The transitions of the status of an order that section 4.3 of the specification
  allows: \<^verbatim>\<open>DRAFT -> SENT -> CONFIRMED\<close>, and \<^verbatim>\<open>CANCELLED\<close> from each of the three.\<close>

definition spec_transition :: "order_status \<Rightarrow> order_status \<Rightarrow> bool" where
  "spec_transition a b =
     ((a = DRAFT \<and> b = SENT) \<or> (a = SENT \<and> b = CONFIRMED)
      \<or> ((a = DRAFT \<or> a = SENT \<or> a = CONFIRMED) \<and> b = CANCELLED))"

section \<open>Totals of an order\<close>

text \<open>The sum of a list of numbers as the handlers accumulate it: from 0, in the order of
  the list, each addition rounded.\<close>

definition fsum :: "number list \<Rightarrow> number" where
  "fsum xs = foldl fadd zero xs"

text \<open>The amounts of a line of the request body as the handlers compute them: the line
  subtotal \<^verbatim>\<open>quantity * unitPrice\<close>, the line tax \<^verbatim>\<open>lineSubtotal * (taxRate / 100)\<close> and the
  line total \<^verbatim>\<open>lineSubtotal + lineTax\<close>.\<close>

definition input_subtotal :: "line_input \<Rightarrow> number" where
  "input_subtotal l = fmul (parseDecimal (in_quantity l)) (parseDecimal (in_unitPrice l))"

definition input_tax :: "line_input \<Rightarrow> number" where
  "input_tax l = fmul (input_subtotal l) (fdiv (parseDecimal (in_taxRate l)) (integer 100))"

definition input_total :: "line_input \<Rightarrow> number" where
  "input_total l = fadd (input_subtotal l) (input_tax l)"

text \<open>The same relations read on a stored order: each line carries the tax and the total
  of its quantity, unit price and tax rate, and the header carries the sums over the
  lines.\<close>

definition line_subtotal :: "line \<Rightarrow> number" where
  "line_subtotal l = fmul (parseDecimal (quantity l)) (parseDecimal (unitPrice l))"

definition line_consistent :: "line \<Rightarrow> bool" where
  "line_consistent l =
     (lineTaxAmount l = fmul (line_subtotal l) (fdiv (parseDecimal (taxRate l)) (integer 100))
      \<and> lineTotal l = fadd (line_subtotal l) (lineTaxAmount l))"

definition header_consistent :: "order \<Rightarrow> bool" where
  "header_consistent ord =
     (subtotal ord = fsum (map line_subtotal (lines ord))
      \<and> taxAmount ord = fsum (map lineTaxAmount (lines ord))
      \<and> totalAmount ord = fadd (subtotal ord) (taxAmount ord)
      \<and> list_all line_consistent (lines ord))"

text \<open>A line without tax: its tax rate is zero or missing.\<close>

definition untaxed :: "line \<Rightarrow> bool" where
  "untaxed l = is_zero (parseDecimal (taxRate l))"

text \<open>A number in canonical representation: zero is \<open>Num 0 0\<close>.\<close>

definition canonical :: "number \<Rightarrow> bool" where
  "canonical x = (x = zero \<or> \<not> is_zero x)"

text \<open>The rounding that section 4.3 of the specification asks for, on exact decimal
  values: half-up, here to two decimal places (the specification names no precision; two
  places are those of the amounts of the currency).\<close>

definition round_half_up :: "rat \<Rightarrow> rat" where
  "round_half_up x = of_int \<lfloor>x * 100 + 1 / 2\<rfloor> / 100"

section \<open>The payment ledger\<close>

text \<open>
  Modelled from the spec: the route \<^verbatim>\<open>/api/payments\<close>, to which the pages
  \<^verbatim>\<open>dashboard/payments\<close> and \<^verbatim>\<open>dashboard/invoices\<close> post, is not among the sources. The
  ledger follows sections 3, 4.5 and 7 of the specification: a payment names at most one
  target, an invoice or a vendor bill; amounts are decimal, hence exact; the error kinds
  are those of section 7.
\<close>

datatype doc_ref = InvoiceRef id | VendorBillRef id

datatype payment_type = INCOMING | OUTGOING

datatype core_error =
    ValidationError string
  | NotFoundError string
  | ConflictError string
  | StateError string

record payment =
  payType :: payment_type
  payContactId :: id
  target :: "doc_ref option"
  amount :: rat
  payDate :: int
  payMethod :: string
  payReference :: "string option"

record ledger_doc =
  ld_ref :: doc_ref
  ld_status :: doc_status
  ld_totalAmount :: rat
  ld_paidAmount :: rat

record ledger =
  ledgerDocs :: "ledger_doc list"
  payments :: "payment list"

definition find_doc :: "doc_ref \<Rightarrow> ledger_doc list \<Rightarrow> ledger_doc option" where
  "find_doc r ds = find (\<lambda>d. ld_ref d = r) ds"

definition add_paid :: "doc_ref \<Rightarrow> rat \<Rightarrow> ledger_doc list \<Rightarrow> ledger_doc list" where
  "add_paid r a ds = map (\<lambda>d. if ld_ref d = r then d\<lparr>ld_paidAmount := ld_paidAmount d + a\<rparr> else d) ds"

text \<open>
  Modelled from the spec: \<^verbatim>\<open>recordPayment\<close> of section 4.5. Preconditions: the amount is
  positive; the referenced document exists and is not cancelled; the amount is at most
  \<^verbatim>\<open>totalAmount - paidAmount\<close>, else the payment is rejected with "exceeds amount due".
  Effect, in one step: the payment is inserted and the paid amount of the target grows by
  the amount. A rejected payment leaves the ledger as it is. The specification gives the
  text of the last rejection only, and does not name the kind of error for a cancelled
  document; a payment without a target has no document to check.
\<close>

definition recordPayment :: "payment \<Rightarrow> ledger \<Rightarrow> (core_error + payment) \<times> ledger" where
  "recordPayment p L =
     (if amount p \<le> 0 then (Inl (ValidationError ''amount must be positive''), L)
      else case target p of
             None \<Rightarrow> (Inr p, L\<lparr>payments := payments L @ [p]\<rparr>)
           | Some r \<Rightarrow>
               (case find_doc r (ledgerDocs L) of
                  None \<Rightarrow> (Inl (NotFoundError ''document not found''), L)
                | Some d \<Rightarrow>
                    if ld_status d = DOC_CANCELLED
                    then (Inl (StateError ''document is cancelled''), L)
                    else if ld_totalAmount d - ld_paidAmount d < amount p
                    then (Inl (ValidationError ''exceeds amount due''), L)
                    else (Inr p, \<lparr>ledgerDocs = add_paid r (amount p) (ledgerDocs L),
                                  payments = payments L @ [p]\<rparr>)))"

text \<open>The ledger after a sequence of calls, accepted or rejected.\<close>

definition recordPayments :: "payment list \<Rightarrow> ledger \<Rightarrow> ledger" where
  "recordPayments ps L = foldl (\<lambda>s p. snd (recordPayment p s)) L ps"

text \<open>The sum of the recorded payments of a document, and the invariant of the ledger:
  the documents have distinct references, and the paid amount of each is the sum of its
  payments and at most its total.\<close>

definition paid_sum :: "doc_ref \<Rightarrow> payment list \<Rightarrow> rat" where
  "paid_sum r ps = sum_list (map amount (filter (\<lambda>p. target p = Some r) ps))"

definition doc_ok :: "payment list \<Rightarrow> ledger_doc \<Rightarrow> bool" where
  "doc_ok ps d = (ld_paidAmount d = paid_sum (ld_ref d) ps \<and> ld_paidAmount d \<le> ld_totalAmount d)"

definition ledger_ok :: "ledger \<Rightarrow> bool" where
  "ledger_ok L = (distinct (map ld_ref (ledgerDocs L)) \<and> list_all (doc_ok (payments L)) (ledgerDocs L))"

section \<open>The auto-analytical rule engine\<close>

text \<open>
  Modelled from the spec: \<^verbatim>\<open>lib/auto-analytical\<close> and the routes of the rules are not among
  the sources (only the page that edits the rules is). A rule is the record of section 3;
  \<open>line_attributes\<close> gathers what section 4.2 lets the engine read of a line: its explicit
  account, its counterparty and the tag of the counterparty, its product with the category
  and the default account of the product.
\<close>

datatype rule_status = RULE_NEW | RULE_CONFIRMED | RULE_ARCHIVED

record rule =
  rule_partnerId :: "id option"
  rule_partnerTag :: "string option"
  rule_productCategoryId :: "id option"
  rule_productId :: "id option"
  rule_analyticalAccountId :: id
  autoApply :: bool
  rule_status :: rule_status

record line_attributes =
  explicitAccountId :: "id option"
  attr_partnerId :: id
  attr_partnerTag :: "string option"
  attr_productCategoryId :: "id option"
  attr_productId :: id
  productDefaultAccountId :: "id option"

text \<open>Modelled from the spec: a rule matches when every field that it sets equals the
  attribute of the line; its specificity is the number of fields that it sets.\<close>

definition field_matches :: "'a option \<Rightarrow> 'a option \<Rightarrow> bool" where
  "field_matches ruleField attr = (case ruleField of None \<Rightarrow> True | Some v \<Rightarrow> attr = Some v)"

definition rule_matches :: "line_attributes \<Rightarrow> rule \<Rightarrow> bool" where
  "rule_matches a r =
     (field_matches (rule_partnerId r) (Some (attr_partnerId a))
      \<and> field_matches (rule_partnerTag r) (attr_partnerTag a)
      \<and> field_matches (rule_productCategoryId r) (attr_productCategoryId a)
      \<and> field_matches (rule_productId r) (Some (attr_productId a)))"

definition count_field :: "'a option \<Rightarrow> nat" where
  "count_field f = (case f of None \<Rightarrow> 0 | Some v \<Rightarrow> 1)"

definition specificity :: "rule \<Rightarrow> nat" where
  "specificity r =
     count_field (rule_partnerId r) + count_field (rule_partnerTag r)
     + count_field (rule_productCategoryId r) + count_field (rule_productId r)"

text \<open>Modelled from the spec: the candidates are the matching rules with
  \<^verbatim>\<open>autoApply = true\<close> and lifecycle status \<^verbatim>\<open>CONFIRMED\<close>; the rule of highest specificity is
  selected. The specification leaves the choice among rules of equal specificity open:
  here the first of them in the list of rules is taken.\<close>

definition candidates :: "rule list \<Rightarrow> line_attributes \<Rightarrow> rule list" where
  "candidates rules a =
     filter (\<lambda>r. autoApply r \<and> rule_status r = RULE_CONFIRMED \<and> rule_matches a r) rules"

definition most_specific :: "rule \<Rightarrow> rule list \<Rightarrow> rule" where
  "most_specific c cs = foldl (\<lambda>best r. if specificity best < specificity r then r else best) c cs"

text \<open>Modelled from the spec: \<^verbatim>\<open>resolveAnalyticalAccount\<close> of section 4.2. An explicit
  account passes through; otherwise the account of the selected rule; without a candidate
  the default account of the product, which may be missing.\<close>

definition resolveAnalyticalAccount :: "rule list \<Rightarrow> line_attributes \<Rightarrow> id option" where
  "resolveAnalyticalAccount rules a =
     (case explicitAccountId a of
        Some x \<Rightarrow> Some x
      | None \<Rightarrow>
          (case candidates rules a of
             [] \<Rightarrow> productDefaultAccountId a
           | c # cs \<Rightarrow> Some (rule_analyticalAccountId (most_specific c cs))))"

section \<open>Scenario data\<close>

definition admin_user :: user where
  "admin_user = \<lparr>role = ADMIN, contactId = None, isAdmin = True\<rparr>"

definition empty_store :: store where
  "empty_store = \<lparr>salesOrders = [], invoices = [], purchaseOrders = [], vendorBills = [],
                   sequences = [], products = []\<rparr>"

text \<open>A product bought at 100 and sold at 150, and a request body that carries a sale
  price of 1 and no purchase price.\<close>

definition chair :: product where
  "chair = \<lparr>productRowId = ''p1'', code = ''PROD-00001'', purchasePrice = Some (integer 100),
            salePrice = Some (integer 150), isActive = True\<rparr>"

definition sale_only_body :: product_body where
  "sale_only_body = \<lparr>body_purchasePrice = None, body_salePrice = Some (integer 1),
                      body_isActive = None\<rparr>"

definition vendor_user :: user where
  "vendor_user = \<lparr>role = VENDOR, contactId = Some ''c1'', isAdmin = False\<rparr>"

text \<open>An order of the partner \<open>c1\<close> that has been sent: two desks at 100 with 18 % tax, dated
  at time 0 and without an expected date. The same row serves as a sales order and as a
  purchase order.\<close>

definition desk_line :: line where
  "desk_line = \<lparr>productId = ''p1'', description = Some ''Desk'', quantity = Some (integer 2),
                unitPrice = Some (integer 100), taxRate = Some (integer 18),
                lineTaxAmount = integer 36, lineTotal = integer 236,
                analyticalAccountId = None\<rparr>"

definition sent_order :: order where
  "sent_order = \<lparr>orderId = ''o1'', orderNumber = ''ORD-00001'', partnerId = ''c1'', orderDate = 0,
                 expectedDate = None, status = SENT, subtotal = integer 200,
                 taxAmount = integer 36, totalAmount = integer 236, orderNotes = None,
                 lines = [desk_line]\<rparr>"

definition sent_store :: store where
  "sent_store = empty_store\<lparr>salesOrders := [sent_order], purchaseOrders := [sent_order]\<rparr>"

definition draft_store :: store where
  "draft_store = empty_store\<lparr>salesOrders := [sent_order\<lparr>status := DRAFT\<rparr>]\<rparr>"

text \<open>A request body that carries a status and nothing else.\<close>

definition status_body :: "order_status \<Rightarrow> order_body" where
  "status_body s = \<lparr>body_partnerId = None, body_orderDate = None, body_expectedDate = None,
                     body_status = Some s, body_notes = None, body_lines = None\<rparr>"

text \<open>A document of the order \<open>o1\<close>, and the store in which it is the invoice and the bill
  of that order.\<close>

definition issued :: document where
  "issued = \<lparr>docNumber = ''DOC-00001'', docPartnerId = ''c1'', sourceOrderId = Some ''o1'',
             docDate = 0, dueDate = 2592000000, docStatus = DOC_POSTED,
             docSubtotal = integer 200, docTaxAmount = integer 36, docTotalAmount = integer 236,
             paidAmount = zero, docNotes = None, docLines = [desk_line]\<rparr>"

definition billed_store :: store where
  "billed_store = sent_store\<lparr>invoices := [issued], vendorBills := [issued]\<rparr>"

text \<open>The order \<open>o1\<close> confirmed twice as a sales order, twice by its vendor, and once more
  by the administrator.\<close>

definition confirm_twice :: "request list" where
  "confirm_twice =
     [SalesOrderPATCH 1000 (Some admin_user) ''o1'' (status_body CONFIRMED),
      SalesOrderPATCH 2000 (Some admin_user) ''o1'' (status_body CONFIRMED),
      VendorConfirmPOST 3000 (Some vendor_user) ''o1'',
      VendorConfirmPOST 4000 (Some vendor_user) ''o1'',
      PurchaseOrderPUT 5000 (Some admin_user) ''o1'' (status_body CONFIRMED)]"

text \<open>A request body that replaces the lines of an order by no line.\<close>

definition no_lines_body :: order_body where
  "no_lines_body = \<lparr>body_partnerId = None, body_orderDate = None, body_expectedDate = None,
                     body_status = None, body_notes = None, body_lines = Some []\<rparr>"



text \<open>An invoice whose number is \<open>2^53 + 1\<close>.\<close>

definition invoice_2_53 :: document where
  "invoice_2_53 = issued\<lparr>docNumber := ''INV-9007199254740993''\<rparr>"

text \<open>Lines of a request body: one sheet of paper at 0.1 with 10 % tax, two desks at 100
  with 10 % tax, one lamp at 19.99 with 18 % tax; and bodies that carry lines.\<close>

definition paper_input :: line_input where
  "paper_input = \<lparr>in_productId = ''p2'', in_description = Some ''Paper'',
                  in_quantity = Some (integer 1), in_unitPrice = Some (decimal 1 1),
                  in_taxRate = Some (integer 10), in_analyticalAccountId = None\<rparr>"

definition desk_input :: line_input where
  "desk_input = \<lparr>in_productId = ''p1'', in_description = Some ''Desk'',
                 in_quantity = Some (integer 2), in_unitPrice = Some (integer 100),
                 in_taxRate = Some (integer 10), in_analyticalAccountId = None\<rparr>"

definition lamp_input :: line_input where
  "lamp_input = \<lparr>in_productId = ''p3'', in_description = Some ''Lamp'',
                 in_quantity = Some (integer 1), in_unitPrice = Some (decimal 1999 2),
                 in_taxRate = Some (integer 18), in_analyticalAccountId = None\<rparr>"

definition lines_body :: "line_input list \<Rightarrow> order_body" where
  "lines_body ls = \<lparr>body_partnerId = Some ''c1'', body_orderDate = Some 0, body_expectedDate = None,
                    body_status = None, body_notes = None, body_lines = Some ls\<rparr>"

definition untaxed_body :: order_body where
  "untaxed_body = lines_body [paper_input\<lparr>in_taxRate := None\<rparr>, desk_input\<lparr>in_taxRate := Some zero\<rparr>]"

text \<open>A vendor bill of 236 without payments, payments of that bill, and the ledger after
  the bill has been paid in full.\<close>

definition bill_236 :: ledger_doc where
  "bill_236 = \<lparr>ld_ref = VendorBillRef ''b1'', ld_status = DOC_DRAFT, ld_totalAmount = 236,
               ld_paidAmount = 0\<rparr>"

definition open_ledger :: ledger where
  "open_ledger = \<lparr>ledgerDocs = [bill_236], payments = []\<rparr>"

definition pay_bill :: "rat \<Rightarrow> payment" where
  "pay_bill a = \<lparr>payType = OUTGOING, payContactId = ''c1'', target = Some (VendorBillRef ''b1''),
                 amount = a, payDate = 0, payMethod = ''CASH'', payReference = None\<rparr>"

definition paid_ledger :: ledger where
  "paid_ledger = \<lparr>ledgerDocs = [bill_236\<lparr>ld_paidAmount := 236\<rparr>], payments = [pay_bill 236]\<rparr>"

text \<open>The rules of the scenario of section 8 of the specification: rule A names the
  category C, rule B the category C and the partner P; a line of category C for the
  partner P, and a line that neither rule matches.\<close>

definition rule_A :: rule where
  "rule_A = \<lparr>rule_partnerId = None, rule_partnerTag = None, rule_productCategoryId = Some ''C'',
             rule_productId = None, rule_analyticalAccountId = ''account-A'', autoApply = True,
             rule_status = RULE_CONFIRMED\<rparr>"

definition rule_B :: rule where
  "rule_B = \<lparr>rule_partnerId = Some ''P'', rule_partnerTag = None, rule_productCategoryId = Some ''C'',
             rule_productId = None, rule_analyticalAccountId = ''account-B'', autoApply = True,
             rule_status = RULE_CONFIRMED\<rparr>"

definition line_C_P :: line_attributes where
  "line_C_P = \<lparr>explicitAccountId = None, attr_partnerId = ''P'', attr_partnerTag = None,
               attr_productCategoryId = Some ''C'', attr_productId = ''p1'',
               productDefaultAccountId = Some ''account-D''\<rparr>"

definition line_other :: line_attributes where
  "line_other = line_C_P\<lparr>attr_partnerId := ''Q'', attr_productCategoryId := Some ''E''\<rparr>"

section \<open>Facts about the store\<close>

lemma update_order_Some:
  "update_order i f os = Some (r, os') \<Longrightarrow>
   (\<exists>x. find_order i os = Some x \<and> r = f x) \<and> os' = map (\<lambda>y. if orderId y = i then f y else y) os"
  by (auto simp: update_order_def split: option.splits)

lemma find_order_Some: "find_order i os = Some x \<Longrightarrow> x \<in> set os \<and> orderId x = i"
  by (auto simp: find_order_def find_Some_iff)

lemma find_order_map:
  assumes "\<And>y. orderId (f y) = orderId y"
  shows "find_order i (map (\<lambda>y. if orderId y = i then f y else y) os) = map_option f (find_order i os)"
  using assms by (induction os) (auto simp: find_order_def)

lemma update_order_find:
  assumes "\<And>y. orderId (f y) = orderId y" and "update_order i f os = Some (r, os')"
  shows "find_order i os' = Some r"
  using assms by (auto simp: find_order_map dest!: update_order_Some)

lemma orderId_set_status [simp]: "orderId (set_status s y) = orderId y"
  by (simp add: set_status_def)

lemma linked_append: "linked x (ds @ es) = linked x ds @ linked x es"
  by (simp add: linked_def)

lemma derive_document_cases:
  "derive_document pre st0 note copy now i ord ds = ds
   \<or> (linked i ds = [] \<and> (\<exists>d. sourceOrderId d = Some i \<and> derive_document pre st0 note copy now i ord ds = ds @ [d]))"
  by (auto simp: derive_document_def insert_document_def Let_def split: list.splits)

lemma derive_document_at_most_one:
  assumes "at_most_one ds"
  shows "at_most_one (derive_document pre st0 note copy now i ord ds)"
proof -
  consider "derive_document pre st0 note copy now i ord ds = ds"
    | d where "linked i ds = []" "sourceOrderId d = Some i"
        "derive_document pre st0 note copy now i ord ds = ds @ [d]"
    using derive_document_cases by blast
  then show ?thesis
  proof cases
    case 1
    with assms show ?thesis by simp
  next
    case 2
    show ?thesis
      unfolding at_most_one_def
    proof
      fix x
      show "length (linked x (derive_document pre st0 note copy now i ord ds)) \<le> 1"
      proof (cases "x = i")
        case True
        with 2 show ?thesis by (simp add: linked_append) (simp add: linked_def)
      next
        case False
        with 2 assms show ?thesis
          by (simp add: linked_append at_most_one_def) (simp add: linked_def)
      qed
    qed
  qed
qed

lemma getNextSequence_tables:
  "getNextSequence n st = (c, st') \<Longrightarrow>
   invoices st' = invoices st \<and> vendorBills st' = vendorBills st
   \<and> salesOrders st' = salesOrders st \<and> purchaseOrders st' = purchaseOrders st
   \<and> products st' = products st"
  by (auto simp: getNextSequence_def Let_def)

lemma derive_document_twice:
  "derive_document pre st0' note' copy' now' i ord' (derive_document pre st0 note copy now i ord ds)
     = derive_document pre st0 note copy now i ord ds"
  by (auto simp: derive_document_def insert_document_def Let_def linked_append linked_def split: list.splits)

lemma copy_line_id [simp]: "copy_line l = l"
  by (simp add: copy_line_def)

lemma map_copy_line [simp]: "map copy_line ls = ls"
  by (induction ls) simp_all

lemma copy_line_defaults_id:
  "description l \<noteq> None \<Longrightarrow> taxRate l \<noteq> None \<Longrightarrow> copy_line_defaults l = l"
  by (auto simp: copy_line_defaults_def)

lemma derive_document_created:
  "derive_document pre st0 note copy now i ord ds \<noteq> ds \<Longrightarrow>
   derive_document pre st0 note copy now i ord ds
     = ds @ [\<lparr>docNumber = next_number pre ds, docPartnerId = partnerId ord,
               sourceOrderId = Some i, docDate = now,
               dueDate = (case expectedDate ord of Some t \<Rightarrow> t | None \<Rightarrow> now + 30 * 24 * 60 * 60 * 1000),
               docStatus = st0, docSubtotal = subtotal ord, docTaxAmount = taxAmount ord,
               docTotalAmount = totalAmount ord, paidAmount = zero,
               docNotes = Some (note (orderNumber ord)), docLines = map copy (lines ord)\<rparr>]"
  by (auto simp: derive_document_def insert_document_def Let_def split: list.splits if_splits)

lemma vendor_confirm_bills_of:
  "vendor_confirm_POST now usr i st = (Inr r, st') \<Longrightarrow> find_order i (purchaseOrders st) = Some ord \<Longrightarrow>
   vendorBills st' = derive_document ''BILL-'' DOC_DRAFT vendor_bill_note copy_line now i ord (vendorBills st)"
  by (auto simp: vendor_confirm_POST_def Let_def split: option.splits if_splits)

lemma sales_order_PATCH_invoices_of:
  "sales_order_PATCH now usr i body st = (Inr r, st') \<Longrightarrow> find_order i (salesOrders st) = Some ord \<Longrightarrow>
   invoices st' \<noteq> invoices st \<Longrightarrow>
   invoices st' = derive_document ''INV-'' DOC_POSTED invoice_note copy_line_defaults now i
                    (set_status (Some CONFIRMED) ord) (invoices st)"
  by (auto simp: sales_order_PATCH_def Let_def dest!: update_order_Some split: option.splits if_splits)

lemma sales_order_PUT_lines_invoices:
  "body_lines body = Some ls \<Longrightarrow>
   invoices (snd (sales_order_PUT applyAuto now usr i body st)) = invoices st"
  by (auto simp: sales_order_PUT_def split: option.splits prod.splits)

lemma sales_order_PATCH_invoices:
  "invoices (snd (sales_order_PATCH now usr i body st)) = invoices st
   \<or> (\<exists>ord. invoices (snd (sales_order_PATCH now usr i body st))
         = derive_document ''INV-'' DOC_POSTED invoice_note copy_line_defaults now i ord (invoices st))"
  by (auto simp: sales_order_PATCH_def Let_def split: option.splits)

lemma sales_order_PATCH_confirmed:
  "sales_order_PATCH now usr i body st = (Inr r, st') \<Longrightarrow> body_status body = Some CONFIRMED \<Longrightarrow>
   invoices st' = derive_document ''INV-'' DOC_POSTED invoice_note copy_line_defaults now i r (invoices st)"
  by (auto simp: sales_order_PATCH_def Let_def split: option.splits if_splits)

lemma vendor_confirm_bills:
  "vendorBills (snd (vendor_confirm_POST now usr i st)) = vendorBills st
   \<or> (\<exists>ord. vendorBills (snd (vendor_confirm_POST now usr i st))
         = derive_document ''BILL-'' DOC_DRAFT vendor_bill_note copy_line now i ord (vendorBills st))"
  by (auto simp: vendor_confirm_POST_def Let_def split: option.splits)

lemma vendor_confirm_confirmed:
  "vendor_confirm_POST now usr i st = (Inr r, st') \<Longrightarrow>
   \<exists>ord. vendorBills st' = derive_document ''BILL-'' DOC_DRAFT vendor_bill_note copy_line now i ord (vendorBills st)"
  by (auto simp: vendor_confirm_POST_def Let_def split: option.splits if_splits)

section \<open>At most one derived document per order\<close>

lemma handle_unique_derived:
  assumes "unique_derived st"
  shows "unique_derived (handle applyAuto r st)"
proof (cases r)
  case (SalesOrderPATCH now usr i body)
  with assms show ?thesis
    by (auto simp: sales_order_PATCH_def Let_def unique_derived_def derive_document_at_most_one
             split: option.splits)
next
  case (SalesOrderPUT now usr i body)
  with assms show ?thesis
    by (auto simp: sales_order_PUT_def Let_def unique_derived_def derive_document_at_most_one
             split: option.splits prod.splits)
next
  case (SalesOrderDELETE usr i)
  with assms show ?thesis
    by (auto simp: sales_order_DELETE_def unique_derived_def split: option.splits)
next
  case (PurchaseOrdersPOST now newId usr body)
  with assms show ?thesis
    by (auto simp: purchase_orders_POST_def Let_def unique_derived_def
             dest!: getNextSequence_tables split: option.splits prod.splits)
next
  case (PurchaseOrderPUT now usr i body)
  with assms show ?thesis
    by (auto simp: purchase_order_PUT_def Let_def unique_derived_def derive_document_at_most_one
             split: option.splits prod.splits)
next
  case (PurchaseOrderDELETE usr i)
  with assms show ?thesis
    by (auto simp: purchase_order_DELETE_def unique_derived_def split: option.splits)
next
  case (VendorConfirmPOST now usr i)
  with assms show ?thesis
    by (auto simp: vendor_confirm_POST_def Let_def unique_derived_def derive_document_at_most_one
             split: option.splits)
next
  case (ProductsPOST newId usr body)
  with assms show ?thesis
    by (auto simp: products_POST_def Let_def unique_derived_def
             dest!: getNextSequence_tables split: option.splits prod.splits)
next
  case (ProductPUT usr i body)
  with assms show ?thesis
    by (auto simp: product_PUT_def unique_derived_def split: option.splits)
qed

lemma run_unique_derived:
  "unique_derived st \<Longrightarrow> unique_derived (run applyAuto reqs st)"
  unfolding run_def
  by (induction reqs arbitrary: st) (simp_all add: handle_unique_derived)

text \<open>
  C1. No order is ever the source of two invoices or of two vendor bills: from a store in
  which this holds, every sequence of requests to the handlers leads to a store in which
  it holds. And once a confirmation of an order has succeeded, a further confirmation of
  the same order leaves the table of derived documents as it is: the existing document is
  found and no second one is created.
\<close>

theorem derived_document_unique:
  assumes "unique_derived st"
  shows "length (linked x (invoices (run applyAuto reqs st))) \<le> 1
       \<and> length (linked x (vendorBills (run applyAuto reqs st))) \<le> 1
       \<and> (sales_order_PATCH now usr i body (run applyAuto reqs st) = (Inr r, sa)
            \<and> body_status body = Some CONFIRMED \<longrightarrow>
          invoices (snd (sales_order_PATCH now' usr' i body' sa)) = invoices sa)
       \<and> (vendor_confirm_POST now usr i (run applyAuto reqs st) = (Inr rv, sv) \<longrightarrow>
          vendorBills (snd (vendor_confirm_POST now' usr' i sv)) = vendorBills sv)"
proof (intro conjI impI)
  from assms have "unique_derived (run applyAuto reqs st)" by (rule run_unique_derived)
  then show "length (linked x (invoices (run applyAuto reqs st))) \<le> 1"
    and "length (linked x (vendorBills (run applyAuto reqs st))) \<le> 1"
    by (simp_all add: unique_derived_def at_most_one_def)
next
  assume "sales_order_PATCH now usr i body (run applyAuto reqs st) = (Inr r, sa)
            \<and> body_status body = Some CONFIRMED"
  then have "invoices sa = derive_document ''INV-'' DOC_POSTED invoice_note copy_line_defaults now i r
                (invoices (run applyAuto reqs st))"
    using sales_order_PATCH_confirmed by blast
  with sales_order_PATCH_invoices[of now' usr' i body' sa]
  show "invoices (snd (sales_order_PATCH now' usr' i body' sa)) = invoices sa"
    by (auto simp: derive_document_twice)
next
  assume "vendor_confirm_POST now usr i (run applyAuto reqs st) = (Inr rv, sv)"
  then obtain ord where "vendorBills sv = derive_document ''BILL-'' DOC_DRAFT vendor_bill_note copy_line now i ord
                (vendorBills (run applyAuto reqs st))"
    using vendor_confirm_confirmed by blast
  with vendor_confirm_bills[of now' usr' i sv]
  show "vendorBills (snd (vendor_confirm_POST now' usr' i sv)) = vendorBills sv"
    by (auto simp: derive_document_twice)
qed

theorem derived_document_unique_witness:
  "unique_derived sent_store
   \<and> length (linked ''o1'' (invoices (run (\<lambda>ls. ls) confirm_twice sent_store))) = 1
   \<and> length (linked ''o1'' (vendorBills (run (\<lambda>ls. ls) confirm_twice sent_store))) = 1
   \<and> fst (sales_order_PATCH 1000 (Some admin_user) ''o1'' (status_body CONFIRMED) sent_store)
        = Inr (sent_order\<lparr>status := CONFIRMED\<rparr>)
   \<and> body_status (status_body CONFIRMED) = Some CONFIRMED
   \<and> invoices (snd (sales_order_PATCH 2000 (Some admin_user) ''o1'' (status_body CONFIRMED)
        (snd (sales_order_PATCH 1000 (Some admin_user) ''o1'' (status_body CONFIRMED) sent_store))))
      = invoices (snd (sales_order_PATCH 1000 (Some admin_user) ''o1'' (status_body CONFIRMED) sent_store))
   \<and> fst (vendor_confirm_POST 3000 (Some vendor_user) ''o1'' sent_store)
        = Inr (sent_order\<lparr>status := CONFIRMED\<rparr>)
   \<and> vendorBills (snd (vendor_confirm_POST 4000 (Some vendor_user) ''o1''
        (snd (vendor_confirm_POST 3000 (Some vendor_user) ''o1'' sent_store))))
      = vendorBills (snd (vendor_confirm_POST 3000 (Some vendor_user) ''o1'' sent_store))"
proof -
  have u: "unique_derived sent_store"
    by (simp add: unique_derived_def at_most_one_def linked_def sent_store_def empty_store_def)
  have a: "length (linked ''o1'' (invoices (run (\<lambda>ls. ls) confirm_twice sent_store))) = 1" by code_simp
  have b: "length (linked ''o1'' (vendorBills (run (\<lambda>ls. ls) confirm_twice sent_store))) = 1" by code_simp
  have c: "fst (sales_order_PATCH 1000 (Some admin_user) ''o1'' (status_body CONFIRMED) sent_store)
        = Inr (sent_order\<lparr>status := CONFIRMED\<rparr>)" by code_simp
  have d: "body_status (status_body CONFIRMED) = Some CONFIRMED" by code_simp
  have e: "fst (vendor_confirm_POST 3000 (Some vendor_user) ''o1'' sent_store)
        = Inr (sent_order\<lparr>status := CONFIRMED\<rparr>)" by code_simp
  have r0: "run (\<lambda>ls. ls) [] sent_store = sent_store" by (simp add: run_def)
  from c have c': "sales_order_PATCH 1000 (Some admin_user) ''o1'' (status_body CONFIRMED)
        (run (\<lambda>ls. ls) [] sent_store)
     = (Inr (sent_order\<lparr>status := CONFIRMED\<rparr>),
        snd (sales_order_PATCH 1000 (Some admin_user) ''o1'' (status_body CONFIRMED) sent_store))"
    unfolding r0 by (metis prod.collapse)
  from e have e': "vendor_confirm_POST 3000 (Some vendor_user) ''o1'' (run (\<lambda>ls. ls) [] sent_store)
     = (Inr (sent_order\<lparr>status := CONFIRMED\<rparr>),
        snd (vendor_confirm_POST 3000 (Some vendor_user) ''o1'' sent_store))"
    unfolding r0 by (metis prod.collapse)
  have f: "invoices (snd (sales_order_PATCH 2000 (Some admin_user) ''o1'' (status_body CONFIRMED)
        (snd (sales_order_PATCH 1000 (Some admin_user) ''o1'' (status_body CONFIRMED) sent_store))))
      = invoices (snd (sales_order_PATCH 1000 (Some admin_user) ''o1'' (status_body CONFIRMED) sent_store))"
    using c' d derived_document_unique[OF u, where applyAuto = "\<lambda>ls. ls" and reqs = "[]"
      and now = 1000 and usr = "Some admin_user" and i = "''o1''" and body = "status_body CONFIRMED"
      and r = "sent_order\<lparr>status := CONFIRMED\<rparr>"
      and sa = "snd (sales_order_PATCH 1000 (Some admin_user) ''o1'' (status_body CONFIRMED) sent_store)"
      and now' = 2000 and usr' = "Some admin_user" and body' = "status_body CONFIRMED"]
    by blast
  have g: "vendorBills (snd (vendor_confirm_POST 4000 (Some vendor_user) ''o1''
        (snd (vendor_confirm_POST 3000 (Some vendor_user) ''o1'' sent_store))))
      = vendorBills (snd (vendor_confirm_POST 3000 (Some vendor_user) ''o1'' sent_store))"
    using e' derived_document_unique[OF u, where applyAuto = "\<lambda>ls. ls" and reqs = "[]"
      and now = 3000 and usr = "Some vendor_user" and i = "''o1''"
      and rv = "sent_order\<lparr>status := CONFIRMED\<rparr>"
      and sv = "snd (vendor_confirm_POST 3000 (Some vendor_user) ''o1'' sent_store)"
      and now' = 4000 and usr' = "Some vendor_user"]
    by blast
  from u a b c d e f g show ?thesis by simp
qed

section \<open>Cancelling an order\<close>

text \<open>
  C3, as the specification states it, fails: an order that has a derived document can be
  cancelled through the status update. The sales order \<open>o1\<close> has an invoice and the
  purchase order \<open>o1\<close> a vendor bill; the \<^verbatim>\<open>PATCH\<close> of the sales order and the \<^verbatim>\<open>PUT\<close> of the
  purchase order with the status \<^verbatim>\<open>CANCELLED\<close> succeed and leave the order cancelled, the
  documents staying in place.
\<close>

theorem status_update_cancels_with_derived_document:
  "linked ''o1'' (invoices billed_store) = [issued]
   \<and> sales_order_PATCH 1000 (Some admin_user) ''o1'' (status_body CANCELLED) billed_store
       = (Inr (sent_order\<lparr>status := CANCELLED\<rparr>),
          billed_store\<lparr>salesOrders := [sent_order\<lparr>status := CANCELLED\<rparr>]\<rparr>)
   \<and> linked ''o1'' (vendorBills billed_store) = [issued]
   \<and> purchase_order_PUT (\<lambda>ls. ls) 1000 (Some admin_user) ''o1'' (status_body CANCELLED) billed_store
       = (Inr (sent_order\<lparr>status := CANCELLED\<rparr>),
          billed_store\<lparr>purchaseOrders := [sent_order\<lparr>status := CANCELLED\<rparr>]\<rparr>)"
  by code_simp

text \<open>
  C3, amended. The \<^verbatim>\<open>DELETE\<close> handler, which marks an order as cancelled, is blocked by
  derived documents: when an invoice (a vendor bill) refers to the order, it answers with
  the error \<^verbatim>\<open>Cannot delete ... with linked ...\<close> and leaves the whole store, and so the
  status and every other field of the order, unchanged; and whenever it succeeds, no
  derived document refers to the order.
\<close>

theorem cancel_order_with_derived_document:
  "(isAdmin u \<and> linked i (invoices st) \<noteq> [] \<longrightarrow>
      sales_order_DELETE (Some u) i st
        = (Inl (Err 400 ''Cannot delete sales order with linked invoices''), st))
   \<and> (isAdmin u \<and> linked i (vendorBills st) \<noteq> [] \<longrightarrow>
      purchase_order_DELETE (Some u) i st
        = (Inl (Err 400 ''Cannot delete purchase order with linked bills''), st))
   \<and> (sales_order_DELETE usr i st = (Inr x, st') \<longrightarrow> linked i (invoices st) = [])
   \<and> (purchase_order_DELETE usr i st = (Inr y, st'') \<longrightarrow> linked i (vendorBills st) = [])"
  by (auto simp: sales_order_DELETE_def purchase_order_DELETE_def split: option.splits if_splits)

theorem cancel_order_witness:
  "isAdmin admin_user
   \<and> linked ''o1'' (invoices billed_store) \<noteq> []
   \<and> sales_order_DELETE (Some admin_user) ''o1'' billed_store
       = (Inl (Err 400 ''Cannot delete sales order with linked invoices''), billed_store)
   \<and> linked ''o1'' (vendorBills billed_store) \<noteq> []
   \<and> purchase_order_DELETE (Some admin_user) ''o1'' billed_store
       = (Inl (Err 400 ''Cannot delete purchase order with linked bills''), billed_store)
   \<and> sales_order_DELETE (Some admin_user) ''o1'' sent_store
       = (Inr (), sent_store\<lparr>salesOrders := [sent_order\<lparr>status := CANCELLED\<rparr>]\<rparr>)
   \<and> linked ''o1'' (invoices sent_store) = []
   \<and> purchase_order_DELETE (Some admin_user) ''o1'' sent_store
       = (Inr (), sent_store\<lparr>purchaseOrders := [sent_order\<lparr>status := CANCELLED\<rparr>]\<rparr>)
   \<and> linked ''o1'' (vendorBills sent_store) = []"
proof -
  have a: "isAdmin admin_user" by code_simp
  have b: "linked ''o1'' (invoices billed_store) \<noteq> []" by code_simp
  have c: "linked ''o1'' (vendorBills billed_store) \<noteq> []" by code_simp
  have d: "sales_order_DELETE (Some admin_user) ''o1'' sent_store
       = (Inr (), sent_store\<lparr>salesOrders := [sent_order\<lparr>status := CANCELLED\<rparr>]\<rparr>)" by code_simp
  have e: "purchase_order_DELETE (Some admin_user) ''o1'' sent_store
       = (Inr (), sent_store\<lparr>purchaseOrders := [sent_order\<lparr>status := CANCELLED\<rparr>]\<rparr>)" by code_simp
  from a b c d e
    cancel_order_with_derived_document[where u = admin_user and i = "''o1''" and st = billed_store]
    cancel_order_with_derived_document[where i = "''o1''" and st = sent_store
      and usr = "Some admin_user" and x = "()" and y = "()"
      and st' = "sent_store\<lparr>salesOrders := [sent_order\<lparr>status := CANCELLED\<rparr>]\<rparr>"
      and st'' = "sent_store\<lparr>purchaseOrders := [sent_order\<lparr>status := CANCELLED\<rparr>]\<rparr>"]
  show ?thesis by simp
qed

lemma sales_order_DELETE_success:
  "sales_order_DELETE usr i st = (Inr x, st') \<Longrightarrow>
   st' = st\<lparr>salesOrders := map (\<lambda>y. if orderId y = i then y\<lparr>status := CANCELLED\<rparr> else y) (salesOrders st)\<rparr>"
  by (auto simp: sales_order_DELETE_def set_status_def dest!: update_order_Some split: option.splits if_splits)

section \<open>Transitions of the status\<close>

text \<open>
  C4, as the specification states it, fails: the \<^verbatim>\<open>PATCH\<close> handler of a sales order stores
  the status of the request without reading the current one. Here it confirms an order
  that is a draft, a transition that the state machine of the specification does not have.
\<close>

theorem PATCH_confirms_draft_order:
  "find_order ''o1'' (salesOrders draft_store) = Some (sent_order\<lparr>status := DRAFT\<rparr>)
   \<and> \<not> spec_transition DRAFT CONFIRMED
   \<and> fst (sales_order_PATCH 1000 (Some admin_user) ''o1'' (status_body CONFIRMED) draft_store)
       = Inr (sent_order\<lparr>status := CONFIRMED\<rparr>)
   \<and> find_order ''o1'' (salesOrders (snd (sales_order_PATCH 1000 (Some admin_user) ''o1''
         (status_body CONFIRMED) draft_store))) = Some (sent_order\<lparr>status := CONFIRMED\<rparr>)"
  by code_simp

text \<open>
  C4, amended. The confirmation by the vendor succeeds only on an order whose status is
  \<^verbatim>\<open>SENT\<close> and leaves it \<^verbatim>\<open>CONFIRMED\<close>; a successful \<^verbatim>\<open>DELETE\<close> leaves the order
  \<^verbatim>\<open>CANCELLED\<close>; a successful \<^verbatim>\<open>PATCH\<close> of a sales order leaves the order with the status
  that the request carries, whatever its status was.
\<close>

theorem status_transitions:
  "(vendor_confirm_POST now usr i st = (Inr r, st') \<longrightarrow>
      (\<exists>ord. find_order i (purchaseOrders st) = Some ord \<and> status ord = SENT)
      \<and> status r = CONFIRMED \<and> find_order i (purchaseOrders st') = Some r)
   \<and> (sales_order_DELETE usr i st = (Inr x, sd) \<longrightarrow>
      (\<exists>ord. find_order i (salesOrders st) = Some ord
         \<and> find_order i (salesOrders sd) = Some (ord\<lparr>status := CANCELLED\<rparr>)))
   \<and> (purchase_order_DELETE usr i st = (Inr y, pd) \<longrightarrow>
      (\<exists>ord. find_order i (purchaseOrders st) = Some ord
         \<and> find_order i (purchaseOrders pd) = Some (ord\<lparr>status := CANCELLED\<rparr>)))
   \<and> (sales_order_PATCH now usr i body st = (Inr rp, sp) \<and> body_status body = Some s \<longrightarrow>
      status rp = s \<and> find_order i (salesOrders sp) = Some rp)"
proof (intro conjI impI)
  assume a: "vendor_confirm_POST now usr i st = (Inr r, st')"
  then obtain ord os where o: "find_order i (purchaseOrders st) = Some ord" "status ord = SENT"
      and u: "update_order i (set_status (Some CONFIRMED)) (purchaseOrders st) = Some (r, os)"
      and s: "purchaseOrders st' = os"
    by (auto simp: vendor_confirm_POST_def Let_def split: option.splits if_splits)
  from o show "\<exists>ord. find_order i (purchaseOrders st) = Some ord \<and> status ord = SENT" by blast
  from u show "status r = CONFIRMED" by (auto simp: set_status_def dest!: update_order_Some)
  from u s show "find_order i (purchaseOrders st') = Some r"
    using update_order_find[of "set_status (Some CONFIRMED)"] by simp
next
  assume "sales_order_DELETE usr i st = (Inr x, sd)"
  then obtain r os where u: "update_order i (set_status (Some CANCELLED)) (salesOrders st) = Some (r, os)"
      and s: "salesOrders sd = os"
    by (auto simp: sales_order_DELETE_def split: option.splits if_splits)
  from u obtain ord where "find_order i (salesOrders st) = Some ord" "r = ord\<lparr>status := CANCELLED\<rparr>"
    by (auto simp: set_status_def dest!: update_order_Some)
  moreover from u s have "find_order i (salesOrders sd) = Some r"
    using update_order_find[of "set_status (Some CANCELLED)"] by simp
  ultimately show "\<exists>ord. find_order i (salesOrders st) = Some ord
         \<and> find_order i (salesOrders sd) = Some (ord\<lparr>status := CANCELLED\<rparr>)" by simp
next
  assume "purchase_order_DELETE usr i st = (Inr y, pd)"
  then obtain r os where u: "update_order i (set_status (Some CANCELLED)) (purchaseOrders st) = Some (r, os)"
      and s: "purchaseOrders pd = os"
    by (auto simp: purchase_order_DELETE_def split: option.splits if_splits)
  from u obtain ord where "find_order i (purchaseOrders st) = Some ord" "r = ord\<lparr>status := CANCELLED\<rparr>"
    by (auto simp: set_status_def dest!: update_order_Some)
  moreover from u s have "find_order i (purchaseOrders pd) = Some r"
    using update_order_find[of "set_status (Some CANCELLED)"] by simp
  ultimately show "\<exists>ord. find_order i (purchaseOrders st) = Some ord
         \<and> find_order i (purchaseOrders pd) = Some (ord\<lparr>status := CANCELLED\<rparr>)" by simp
next
  assume "sales_order_PATCH now usr i body st = (Inr rp, sp) \<and> body_status body = Some s"
  then obtain os where u: "update_order i (set_status (Some s)) (salesOrders st) = Some (rp, os)"
      and s: "salesOrders sp = os"
    by (auto simp: sales_order_PATCH_def Let_def split: option.splits if_splits)
  from u show "status rp = s" by (auto simp: set_status_def dest!: update_order_Some)
  from u s show "find_order i (salesOrders sp) = Some rp"
    using update_order_find[of "set_status (Some s)"] by simp
qed

theorem status_transitions_witness:
  "fst (vendor_confirm_POST 1000 (Some vendor_user) ''o1'' sent_store)
     = Inr (sent_order\<lparr>status := CONFIRMED\<rparr>)
   \<and> find_order ''o1'' (purchaseOrders sent_store) = Some sent_order \<and> status sent_order = SENT
   \<and> find_order ''o1'' (purchaseOrders (snd (vendor_confirm_POST 1000 (Some vendor_user) ''o1'' sent_store)))
       = Some (sent_order\<lparr>status := CONFIRMED\<rparr>)
   \<and> fst (sales_order_DELETE (Some admin_user) ''o1'' sent_store) = Inr ()
   \<and> find_order ''o1'' (salesOrders (snd (sales_order_DELETE (Some admin_user) ''o1'' sent_store)))
       = Some (sent_order\<lparr>status := CANCELLED\<rparr>)
   \<and> fst (purchase_order_DELETE (Some admin_user) ''o1'' sent_store) = Inr ()
   \<and> find_order ''o1'' (purchaseOrders (snd (purchase_order_DELETE (Some admin_user) ''o1'' sent_store)))
       = Some (sent_order\<lparr>status := CANCELLED\<rparr>)
   \<and> fst (sales_order_PATCH 1000 (Some admin_user) ''o1'' (status_body CONFIRMED) sent_store)
       = Inr (sent_order\<lparr>status := CONFIRMED\<rparr>)
   \<and> body_status (status_body CONFIRMED) = Some CONFIRMED
   \<and> find_order ''o1'' (salesOrders (snd (sales_order_PATCH 1000 (Some admin_user) ''o1''
         (status_body CONFIRMED) sent_store))) = Some (sent_order\<lparr>status := CONFIRMED\<rparr>)"
proof -
  have a: "fst (vendor_confirm_POST 1000 (Some vendor_user) ''o1'' sent_store)
     = Inr (sent_order\<lparr>status := CONFIRMED\<rparr>)" by code_simp
  have b: "fst (sales_order_DELETE (Some admin_user) ''o1'' sent_store) = Inr ()" by code_simp
  have c: "fst (purchase_order_DELETE (Some admin_user) ''o1'' sent_store) = Inr ()" by code_simp
  have d: "fst (sales_order_PATCH 1000 (Some admin_user) ''o1'' (status_body CONFIRMED) sent_store)
     = Inr (sent_order\<lparr>status := CONFIRMED\<rparr>)" by code_simp
  have e: "body_status (status_body CONFIRMED) = Some CONFIRMED" by code_simp
  have f: "find_order ''o1'' (purchaseOrders sent_store) = Some sent_order"
          "status sent_order = SENT" by code_simp+
  from a have a': "vendor_confirm_POST 1000 (Some vendor_user) ''o1'' sent_store
     = (Inr (sent_order\<lparr>status := CONFIRMED\<rparr>),
        snd (vendor_confirm_POST 1000 (Some vendor_user) ''o1'' sent_store))"
    by (metis prod.collapse)
  from b have b': "sales_order_DELETE (Some admin_user) ''o1'' sent_store
     = (Inr (), snd (sales_order_DELETE (Some admin_user) ''o1'' sent_store))"
    by (metis prod.collapse)
  from c have c': "purchase_order_DELETE (Some admin_user) ''o1'' sent_store
     = (Inr (), snd (purchase_order_DELETE (Some admin_user) ''o1'' sent_store))"
    by (metis prod.collapse)
  from d have d': "sales_order_PATCH 1000 (Some admin_user) ''o1'' (status_body CONFIRMED) sent_store
     = (Inr (sent_order\<lparr>status := CONFIRMED\<rparr>),
        snd (sales_order_PATCH 1000 (Some admin_user) ''o1'' (status_body CONFIRMED) sent_store))"
    by (metis prod.collapse)
  have g: "find_order ''o1'' (purchaseOrders (snd (vendor_confirm_POST 1000 (Some vendor_user) ''o1'' sent_store)))
       = Some (sent_order\<lparr>status := CONFIRMED\<rparr>)"
    using a' status_transitions[where now = 1000 and usr = "Some vendor_user" and i = "''o1''"
      and st = sent_store and r = "sent_order\<lparr>status := CONFIRMED\<rparr>"
      and st' = "snd (vendor_confirm_POST 1000 (Some vendor_user) ''o1'' sent_store)"]
    by blast
  have f': "find_order ''o1'' (salesOrders sent_store) = Some sent_order" by code_simp
  have h: "find_order ''o1'' (salesOrders (snd (sales_order_DELETE (Some admin_user) ''o1'' sent_store)))
       = Some (sent_order\<lparr>status := CANCELLED\<rparr>)"
    using b' f' status_transitions[where usr = "Some admin_user" and i = "''o1''" and st = sent_store
      and x = "()" and sd = "snd (sales_order_DELETE (Some admin_user) ''o1'' sent_store)"]
    by auto
  have j: "find_order ''o1'' (purchaseOrders (snd (purchase_order_DELETE (Some admin_user) ''o1'' sent_store)))
       = Some (sent_order\<lparr>status := CANCELLED\<rparr>)"
    using c' f status_transitions[where usr = "Some admin_user" and i = "''o1''" and st = sent_store
      and y = "()" and pd = "snd (purchase_order_DELETE (Some admin_user) ''o1'' sent_store)"]
    by auto
  have k: "find_order ''o1'' (salesOrders (snd (sales_order_PATCH 1000 (Some admin_user) ''o1''
         (status_body CONFIRMED) sent_store))) = Some (sent_order\<lparr>status := CONFIRMED\<rparr>)"
    using d' e status_transitions[where now = 1000 and usr = "Some admin_user" and i = "''o1''"
      and st = sent_store and body = "status_body CONFIRMED" and s = CONFIRMED
      and rp = "sent_order\<lparr>status := CONFIRMED\<rparr>"
      and sp = "snd (sales_order_PATCH 1000 (Some admin_user) ''o1'' (status_body CONFIRMED) sent_store)"]
    by blast
  from a b c d e f g h j k show ?thesis by simp
qed

section \<open>Construction of the derived document\<close>

text \<open>
  C7, as the specification states it, fails on the due date: for an order without an
  expected date the handlers take the time of the confirmation plus 30 days, not the
  date of the order plus 30 days. The order \<open>o1\<close> is dated at time 0 and confirmed one day
  later (86400000 ms): the bill is due at 2678400000, not at 2592000000.
\<close>

theorem due_date_counts_from_confirmation:
  "find_order ''o1'' (purchaseOrders sent_store) = Some sent_order
   \<and> expectedDate sent_order = None
   \<and> orderDate sent_order + 30 * 24 * 60 * 60 * 1000 = 2592000000
   \<and> map dueDate (vendorBills (snd (vendor_confirm_POST 86400000 (Some vendor_user) ''o1'' sent_store)))
       = [2678400000]"
  by code_simp

text \<open>
  C7, amended. When a confirmation creates a vendor bill or an invoice, the new document
  carries the subtotal, tax amount and total amount of the order header, a paid amount of
  zero, and as due date the expected date of the order when it has one and otherwise the
  time of the confirmation plus 30 days. The lines of the bill are the lines of the order;
  the lines of the invoice are the lines of the order with a missing description replaced
  by the empty string and a missing tax rate by zero, which are the lines themselves when
  both are present. The document holds its own lines: replacing the lines of the order
  afterwards leaves the invoices as they are.
\<close>

theorem derived_document_construction:
  "(vendor_confirm_POST now usr i st = (Inr r, st') \<and> find_order i (purchaseOrders st) = Some po
      \<and> vendorBills st' \<noteq> vendorBills st \<longrightarrow>
      (\<exists>d. vendorBills st' = vendorBills st @ [d] \<and> sourceOrderId d = Some i
         \<and> docSubtotal d = subtotal po \<and> docTaxAmount d = taxAmount po
         \<and> docTotalAmount d = totalAmount po \<and> docLines d = lines po
         \<and> dueDate d = (case expectedDate po of Some t \<Rightarrow> t | None \<Rightarrow> now + 30 * 24 * 60 * 60 * 1000)
         \<and> paidAmount d = zero))
   \<and> (sales_order_PATCH now usr i body st = (Inr rp, sp) \<and> find_order i (salesOrders st) = Some so
      \<and> invoices sp \<noteq> invoices st \<longrightarrow>
      (\<exists>d. invoices sp = invoices st @ [d] \<and> sourceOrderId d = Some i
         \<and> docSubtotal d = subtotal so \<and> docTaxAmount d = taxAmount so
         \<and> docTotalAmount d = totalAmount so \<and> docLines d = map copy_line_defaults (lines so)
         \<and> dueDate d = (case expectedDate so of Some t \<Rightarrow> t | None \<Rightarrow> now + 30 * 24 * 60 * 60 * 1000)
         \<and> paidAmount d = zero))
   \<and> (description l \<noteq> None \<and> taxRate l \<noteq> None \<longrightarrow> copy_line_defaults l = l)
   \<and> (body_lines pb = Some ls \<longrightarrow>
      invoices (snd (sales_order_PUT applyAuto now usr i pb st)) = invoices st)"
proof (intro conjI impI)
  assume a: "vendor_confirm_POST now usr i st = (Inr r, st') \<and> find_order i (purchaseOrders st) = Some po
      \<and> vendorBills st' \<noteq> vendorBills st"
  then have "vendorBills st' = derive_document ''BILL-'' DOC_DRAFT vendor_bill_note copy_line now i po (vendorBills st)"
    using vendor_confirm_bills_of by blast
  with a derive_document_created[of "''BILL-''" DOC_DRAFT vendor_bill_note copy_line now i po "vendorBills st"]
  show "\<exists>d. vendorBills st' = vendorBills st @ [d] \<and> sourceOrderId d = Some i
         \<and> docSubtotal d = subtotal po \<and> docTaxAmount d = taxAmount po
         \<and> docTotalAmount d = totalAmount po \<and> docLines d = lines po
         \<and> dueDate d = (case expectedDate po of Some t \<Rightarrow> t | None \<Rightarrow> now + 30 * 24 * 60 * 60 * 1000)
         \<and> paidAmount d = zero"
    by simp
next
  assume a: "sales_order_PATCH now usr i body st = (Inr rp, sp) \<and> find_order i (salesOrders st) = Some so
      \<and> invoices sp \<noteq> invoices st"
  then have "invoices sp = derive_document ''INV-'' DOC_POSTED invoice_note copy_line_defaults now i
                    (set_status (Some CONFIRMED) so) (invoices st)"
    using sales_order_PATCH_invoices_of by blast
  with a derive_document_created[of "''INV-''" DOC_POSTED invoice_note copy_line_defaults now i
      "set_status (Some CONFIRMED) so" "invoices st"]
  show "\<exists>d. invoices sp = invoices st @ [d] \<and> sourceOrderId d = Some i
         \<and> docSubtotal d = subtotal so \<and> docTaxAmount d = taxAmount so
         \<and> docTotalAmount d = totalAmount so \<and> docLines d = map copy_line_defaults (lines so)
         \<and> dueDate d = (case expectedDate so of Some t \<Rightarrow> t | None \<Rightarrow> now + 30 * 24 * 60 * 60 * 1000)
         \<and> paidAmount d = zero"
    by (simp add: set_status_def)
next
  assume "description l \<noteq> None \<and> taxRate l \<noteq> None"
  then show "copy_line_defaults l = l" by (simp add: copy_line_defaults_id)
next
  assume "body_lines pb = Some ls"
  then show "invoices (snd (sales_order_PUT applyAuto now usr i pb st)) = invoices st"
    by (rule sales_order_PUT_lines_invoices)
qed

theorem derived_document_construction_witness:
  "fst (vendor_confirm_POST 1000 (Some vendor_user) ''o1'' sent_store)
     = Inr (sent_order\<lparr>status := CONFIRMED\<rparr>)
   \<and> find_order ''o1'' (purchaseOrders sent_store) = Some sent_order
   \<and> vendorBills (snd (vendor_confirm_POST 1000 (Some vendor_user) ''o1'' sent_store))
       \<noteq> vendorBills sent_store
   \<and> (\<exists>d. vendorBills (snd (vendor_confirm_POST 1000 (Some vendor_user) ''o1'' sent_store))
            = vendorBills sent_store @ [d]
          \<and> sourceOrderId d = Some ''o1'' \<and> docSubtotal d = subtotal sent_order
          \<and> docTaxAmount d = taxAmount sent_order \<and> docTotalAmount d = totalAmount sent_order
          \<and> docLines d = lines sent_order \<and> dueDate d = 2592001000 \<and> paidAmount d = zero)
   \<and> fst (sales_order_PATCH 1000 (Some admin_user) ''o1'' (status_body CONFIRMED) sent_store)
       = Inr (sent_order\<lparr>status := CONFIRMED\<rparr>)
   \<and> find_order ''o1'' (salesOrders sent_store) = Some sent_order
   \<and> invoices (snd (sales_order_PATCH 1000 (Some admin_user) ''o1'' (status_body CONFIRMED) sent_store))
       \<noteq> invoices sent_store
   \<and> (\<exists>d. invoices (snd (sales_order_PATCH 1000 (Some admin_user) ''o1'' (status_body CONFIRMED) sent_store))
            = invoices sent_store @ [d]
          \<and> sourceOrderId d = Some ''o1'' \<and> docSubtotal d = subtotal sent_order
          \<and> docTaxAmount d = taxAmount sent_order \<and> docTotalAmount d = totalAmount sent_order
          \<and> docLines d = map copy_line_defaults (lines sent_order)
          \<and> dueDate d = 2592001000 \<and> paidAmount d = zero)
   \<and> description desk_line \<noteq> None \<and> taxRate desk_line \<noteq> None
   \<and> copy_line_defaults desk_line = desk_line
   \<and> body_lines no_lines_body = Some []
   \<and> invoices (snd (sales_order_PUT (\<lambda>ls. ls) 2000 (Some admin_user) ''o1'' no_lines_body billed_store))
       = invoices billed_store"
proof -
  let ?v = "vendor_confirm_POST 1000 (Some vendor_user) ''o1'' sent_store"
  let ?p = "sales_order_PATCH 1000 (Some admin_user) ''o1'' (status_body CONFIRMED) sent_store"
  have a: "fst ?v = Inr (sent_order\<lparr>status := CONFIRMED\<rparr>)" by code_simp
  have b: "find_order ''o1'' (purchaseOrders sent_store) = Some sent_order"
          "find_order ''o1'' (salesOrders sent_store) = Some sent_order" by code_simp+
  have c: "vendorBills (snd ?v) \<noteq> vendorBills sent_store" by code_simp
  have d: "fst ?p = Inr (sent_order\<lparr>status := CONFIRMED\<rparr>)" by code_simp
  have e: "invoices (snd ?p) \<noteq> invoices sent_store" by code_simp
  have f: "description desk_line \<noteq> None" "taxRate desk_line \<noteq> None" by code_simp+
  have g: "body_lines no_lines_body = Some []" by code_simp
  have x: "expectedDate sent_order = None" by code_simp
  from a have a': "?v = (Inr (sent_order\<lparr>status := CONFIRMED\<rparr>), snd ?v)"
    by (metis prod.collapse)
  from d have d': "?p = (Inr (sent_order\<lparr>status := CONFIRMED\<rparr>), snd ?p)"
    by (metis prod.collapse)
  note t1 = derived_document_construction[where now = 1000 and usr = "Some vendor_user"
      and i = "''o1''" and st = sent_store and r = "sent_order\<lparr>status := CONFIRMED\<rparr>"
      and st' = "snd ?v" and po = sent_order]
  note t2 = derived_document_construction[where now = 1000 and usr = "Some admin_user"
      and i = "''o1''" and st = sent_store and body = "status_body CONFIRMED"
      and rp = "sent_order\<lparr>status := CONFIRMED\<rparr>" and sp = "snd ?p" and so = sent_order
      and l = desk_line]
  note t3 = derived_document_construction[where now = 2000 and usr = "Some admin_user"
      and i = "''o1''" and st = billed_store and pb = no_lines_body and ls = "[]"
      and applyAuto = "\<lambda>ls. ls"]
  have h: "\<exists>d. vendorBills (snd ?v) = vendorBills sent_store @ [d]
          \<and> sourceOrderId d = Some ''o1'' \<and> docSubtotal d = subtotal sent_order
          \<and> docTaxAmount d = taxAmount sent_order \<and> docTotalAmount d = totalAmount sent_order
          \<and> docLines d = lines sent_order \<and> dueDate d = 2592001000 \<and> paidAmount d = zero"
    using t1 a' b c x by simp
  have j: "\<exists>d. invoices (snd ?p) = invoices sent_store @ [d]
          \<and> sourceOrderId d = Some ''o1'' \<and> docSubtotal d = subtotal sent_order
          \<and> docTaxAmount d = taxAmount sent_order \<and> docTotalAmount d = totalAmount sent_order
          \<and> docLines d = map copy_line_defaults (lines sent_order)
          \<and> dueDate d = 2592001000 \<and> paidAmount d = zero"
    using t2 d' b e x by simp
  have k: "copy_line_defaults desk_line = desk_line" using t2 f by blast
  have m: "invoices (snd (sales_order_PUT (\<lambda>ls. ls) 2000 (Some admin_user) ''o1'' no_lines_body billed_store))
       = invoices billed_store" using t3 g by blast
  from a b c d e f g h j k m show ?thesis by blast
qed

text \<open>Bills hold their own lines as well: a request that replaces the lines of a purchase
  order leaves the bills of the store as they are; when it also confirms an order that
  has no bill, the new bill is put after them.\<close>

lemma purchase_order_PUT_keeps_bills:
  "\<exists>new. vendorBills (snd (purchase_order_PUT applyAuto now usr i body st)) = vendorBills st @ new"
proof -
  have "vendorBills (snd (purchase_order_PUT applyAuto now usr i body st)) = vendorBills st
        \<or> (\<exists>s0 ord. vendorBills (snd (purchase_order_PUT applyAuto now usr i body st))
              = derive_document ''BILL-'' s0 bill_note copy_line now i ord (vendorBills st))"
    by (auto simp: purchase_order_PUT_def Let_def split: option.splits prod.splits)
  then show ?thesis
    using derive_document_cases by (metis append_Nil2)
qed

section \<open>Generated identifiers\<close>

























text \<open>From \<open>2^53\<close> on the handlers do not count on: the number that follows
  \<^verbatim>\<open>INV-9007199254740993\<close> is \<^verbatim>\<open>INV-9007199254740992\<close>, since \<^verbatim>\<open>parseInt\<close> rounds the last
  number to \<open>2^53\<close> and adding 1 to \<open>2^53\<close> gives \<open>2^53\<close> in binary64.\<close>

lemma next_number_rounds_beyond_2_53:
  "parseInt ''9007199254740993'' = Finite 9007199254740992
   \<and> plus_one (Finite 9007199254740992) = Finite 9007199254740992
   \<and> next_number ''INV-'' [invoice_2_53] = ''INV-9007199254740992''"
  by code_simp








text \<open>The handler that creates a purchase order asks for the sequence \<^verbatim>\<open>purchase_order\<close>,
  a name that \<^verbatim>\<open>SEQUENCE_DEFAULTS\<close> does not list (it lists \<^verbatim>\<open>purchaseOrder\<close>): on first use
  the prefix is cut from the name.\<close>

lemma purchase_order_sequence_first_use:
  "SEQUENCE_DEFAULTS ''purchase_order'' = None
   \<and> fst (getNextSequence ''purchase_order'' empty_store) = ''PURC-00001''"
  by code_simp

section \<open>Totals of an order\<close>

lemma parseDecimal_or_zero [simp]: "parseDecimal (or_zero v) = parseDecimal v"
  by (cases v) (simp_all add: parseDecimal_def or_zero_def)

lemma put_lines_sums:
  "put_lines ls s0 t0 = (rows, s, t) \<Longrightarrow>
   s = foldl fadd s0 (map line_subtotal rows) \<and> t = foldl fadd t0 (map lineTaxAmount rows)
   \<and> list_all line_consistent rows"
proof (induction ls arbitrary: s0 t0 rows s t)
  case Nil
  then show ?case by simp
next
  case (Cons l ls)
  then show ?case
    by (auto simp: Let_def line_subtotal_def line_consistent_def split: prod.splits)
qed

lemma post_lines_sums:
  "post_lines ls s0 t0 = (rows, s, t) \<Longrightarrow>
   s = foldl fadd s0 (map line_subtotal rows) \<and> t = foldl fadd t0 (map lineTaxAmount rows)
   \<and> list_all line_consistent rows"
proof (induction ls arbitrary: s0 t0 rows s t)
  case Nil
  then show ?case by simp
next
  case (Cons l ls)
  then show ?case
    by (auto simp: Let_def line_subtotal_def line_consistent_def split: prod.splits)
qed

lemma rnd_nonzero:
  assumes "n \<noteq> 0"
  shows "\<not> is_zero (rnd n e)"
proof -
  let ?a = "\<bar>n\<bar>"
  let ?b = "bitlen ?a"
  from assms have pos: "0 < ?a" by simp
  show ?thesis
  proof (cases "?b \<le> 53")
    case True
    with assms show ?thesis by (simp add: rnd_def Let_def is_zero_def)
  next
    case False
    let ?t = "?b - 53"
    from bitlen_bounds[OF pos] have "2 ^ nat (?b - 1) \<le> ?a" ..
    moreover from False have "(2::int) ^ nat ?t \<le> 2 ^ nat (?b - 1)"
      by (intro power_increasing) auto
    ultimately have "2 ^ nat ?t \<le> ?a" by linarith
    then have m: "1 \<le> ?a div 2 ^ nat ?t"
      using pos_imp_zdiv_pos_iff[of "2 ^ nat ?t" ?a] by simp
    from assms have sg: "sgn n \<noteq> 0" by (simp add: sgn_if)
    from False m sg show ?thesis
      by (auto simp: rnd_def Let_def is_zero_def)
  qed
qed

lemma canonical_rnd: "canonical (rnd n e)"
  by (cases "n = 0") (auto simp: canonical_def rnd_nonzero, simp add: rnd_def)

lemma canonical_zero [simp]: "canonical zero"
  by (simp add: canonical_def)

lemma is_zero_zero [simp]: "is_zero zero"
  by (simp add: is_zero_def zero_def)

lemma canonical_fmul: "canonical (fmul x y)"
  by (cases x; cases y) (auto simp: fmul_def canonical_rnd)

lemma canonical_fadd: "canonical x \<Longrightarrow> canonical y \<Longrightarrow> canonical (fadd x y)"
  by (cases x; cases y) (auto simp: fadd_def Let_def canonical_rnd)

lemma fadd_zero_right: "canonical x \<Longrightarrow> fadd x zero = x"
  by (auto simp: fadd_def canonical_def)

lemma fadd_zero_left [simp]: "fadd zero y = y"
  by (simp add: fadd_def)

lemma fmul_zero_right [simp]: "fmul x zero = zero"
  by (simp add: fmul_def)

lemma fdiv_zero_left: "is_zero x \<Longrightarrow> fdiv x y = zero"
  by (simp add: fdiv_def)

lemma canonical_foldl: "canonical a \<Longrightarrow> list_all canonical xs \<Longrightarrow> canonical (foldl fadd a xs)"
  by (induction xs arbitrary: a) (simp_all add: canonical_fadd)

lemma untaxed_line:
  assumes "line_consistent l" and "untaxed l"
  shows "lineTaxAmount l = zero" and "lineTotal l = line_subtotal l"
proof -
  from assms show t: "lineTaxAmount l = zero"
    by (simp add: line_consistent_def untaxed_def fdiv_zero_left)
  have "canonical (line_subtotal l)" by (simp add: line_subtotal_def canonical_fmul)
  with assms t show "lineTotal l = line_subtotal l"
    by (simp add: line_consistent_def fadd_zero_right)
qed

lemma foldl_zeros: "list_all (\<lambda>x. x = zero) xs \<Longrightarrow> foldl fadd zero xs = zero"
  by (induction xs) simp_all

lemma untaxed_total:
  assumes "header_consistent ord" and "list_all untaxed (lines ord)"
  shows "totalAmount ord = fsum (map lineTotal (lines ord))"
proof -
  from assms have c: "list_all line_consistent (lines ord)" by (simp add: header_consistent_def)
  with assms(2) have tz: "list_all (\<lambda>x. x = zero) (map lineTaxAmount (lines ord))"
    and lt: "map lineTotal (lines ord) = map line_subtotal (lines ord)"
    by (auto simp: list_all_iff untaxed_line)
  from tz assms(1) have "taxAmount ord = zero"
    by (simp add: header_consistent_def fsum_def foldl_zeros)
  moreover have "canonical (subtotal ord)"
    using assms(1)
    by (auto simp: header_consistent_def fsum_def list_all_iff line_subtotal_def canonical_fmul
             intro!: canonical_foldl)
  ultimately have "totalAmount ord = subtotal ord"
    using assms(1) by (simp add: header_consistent_def fadd_zero_right)
  moreover from assms(1) have "subtotal ord = fsum (map line_subtotal (lines ord))"
    by (simp add: header_consistent_def)
  ultimately show ?thesis unfolding lt by simp
qed

lemma put_lines_inputs:
  "put_lines ls s0 t0 = (rows, s, t) \<Longrightarrow>
   map lineTaxAmount rows = map input_tax ls \<and> map lineTotal rows = map input_total ls
   \<and> map line_subtotal rows = map input_subtotal ls"
proof (induction ls arbitrary: s0 t0 rows s t)
  case Nil
  then show ?case by simp
next
  case (Cons l ls)
  then show ?case
    by (auto simp: Let_def line_subtotal_def input_subtotal_def input_tax_def input_total_def
             split: prod.splits)
qed

lemma post_lines_inputs:
  "post_lines ls s0 t0 = (rows, s, t) \<Longrightarrow>
   map lineTaxAmount rows = map input_tax ls \<and> map lineTotal rows = map input_total ls
   \<and> map line_subtotal rows = map input_subtotal ls"
proof (induction ls arbitrary: s0 t0 rows s t)
  case Nil
  then show ?case by simp
next
  case (Cons l ls)
  then show ?case
    by (auto simp: Let_def line_subtotal_def input_subtotal_def input_tax_def input_total_def
             split: prod.splits)
qed

lemma orderId_put_with_lines [simp]: "orderId (put_with_lines body rows s t y) = orderId y"
  by (simp add: put_with_lines_def)

lemma header_put_with_lines:
  "put_lines ls zero zero = (rows, s, t) \<Longrightarrow> header_consistent (put_with_lines body rows s t y)"
  by (drule put_lines_sums) (simp add: header_consistent_def put_with_lines_def fsum_def)

lemma purchase_orders_POST_created:
  assumes "purchase_orders_POST applyAuto now newId usr body st = (Inr ord, st')"
  shows "\<exists>ls rows s t. body_lines body = Some ls \<and> post_lines (applyAuto ls) zero zero = (rows, s, t)
           \<and> subtotal ord = s \<and> taxAmount ord = t \<and> totalAmount ord = fadd s t \<and> lines ord = rows
           \<and> purchaseOrders st' = purchaseOrders st @ [ord]"
  using assms
  by (auto simp: purchase_orders_POST_def Let_def dest!: getNextSequence_tables
           split: option.splits if_splits prod.splits)

lemma sales_order_PUT_lines:
  assumes "sales_order_PUT applyAuto now usr i body st = (Inr ord, st')" and "body_lines body = Some ls"
  shows "\<exists>rows s t y. put_lines (applyAuto ls) zero zero = (rows, s, t)
           \<and> ord = put_with_lines body rows s t y \<and> find_order i (salesOrders st') = Some ord"
proof -
  from assms obtain rows s t os where p: "put_lines (applyAuto ls) zero zero = (rows, s, t)"
    and u: "update_order i (put_with_lines body rows s t) (salesOrders st) = Some (ord, os)"
    and s: "salesOrders st' = os"
    by (auto simp: sales_order_PUT_def split: option.splits if_splits prod.splits)
  from u obtain y where "ord = put_with_lines body rows s t y" by (auto dest!: update_order_Some)
  moreover from u s have "find_order i (salesOrders st') = Some ord"
    using update_order_find[of "put_with_lines body rows s t"] by simp
  ultimately show ?thesis using p by blast
qed

lemma purchase_order_PUT_lines:
  assumes "purchase_order_PUT applyAuto now usr i body st = (Inr ord, st')" and "body_lines body = Some ls"
  shows "\<exists>rows s t y. put_lines (applyAuto ls) zero zero = (rows, s, t)
           \<and> ord = put_with_lines body rows s t y \<and> find_order i (purchaseOrders st') = Some ord"
proof -
  from assms obtain rows s t os where p: "put_lines (applyAuto ls) zero zero = (rows, s, t)"
    and u: "update_order i (put_with_lines body rows s t) (purchaseOrders st) = Some (ord, os)"
    and s: "purchaseOrders st' = os"
    by (auto simp: purchase_order_PUT_def Let_def split: option.splits if_splits prod.splits)
  from u obtain y where "ord = put_with_lines body rows s t y" by (auto dest!: update_order_Some)
  moreover from u s have "find_order i (purchaseOrders st') = Some ord"
    using update_order_find[of "put_with_lines body rows s t"] by simp
  ultimately show ?thesis using p by blast
qed

lemma purchase_orders_POST_amounts:
  assumes "purchase_orders_POST applyAuto now newId usr body st = (Inr ord, st')"
    and "body_lines body = Some ls"
  shows "map lineTaxAmount (lines ord) = map input_tax (applyAuto ls)"
    and "map lineTotal (lines ord) = map input_total (applyAuto ls)"
    and "subtotal ord = fsum (map input_subtotal (applyAuto ls))"
    and "taxAmount ord = fsum (map input_tax (applyAuto ls))"
    and "totalAmount ord = fadd (subtotal ord) (taxAmount ord)"
proof -
  from assms obtain rows s t where p: "post_lines (applyAuto ls) zero zero = (rows, s, t)"
    and o: "subtotal ord = s" "taxAmount ord = t" "totalAmount ord = fadd s t" "lines ord = rows"
    using purchase_orders_POST_created[OF assms(1)] by auto
  from post_lines_inputs[OF p] post_lines_sums[OF p] o
  show "map lineTaxAmount (lines ord) = map input_tax (applyAuto ls)"
    and "map lineTotal (lines ord) = map input_total (applyAuto ls)"
    and "subtotal ord = fsum (map input_subtotal (applyAuto ls))"
    and "taxAmount ord = fsum (map input_tax (applyAuto ls))"
    and "totalAmount ord = fadd (subtotal ord) (taxAmount ord)"
    by (simp_all add: fsum_def)
qed

lemma sales_order_PUT_amounts:
  assumes "sales_order_PUT applyAuto now usr i body st = (Inr ord, st')"
    and "body_lines body = Some ls"
  shows "map lineTaxAmount (lines ord) = map input_tax (applyAuto ls)"
    and "map lineTotal (lines ord) = map input_total (applyAuto ls)"
    and "subtotal ord = fsum (map input_subtotal (applyAuto ls))"
    and "taxAmount ord = fsum (map input_tax (applyAuto ls))"
    and "totalAmount ord = fadd (subtotal ord) (taxAmount ord)"
proof -
  from sales_order_PUT_lines[OF assms] obtain rows s t y
    where p: "put_lines (applyAuto ls) zero zero = (rows, s, t)"
      and o: "ord = put_with_lines body rows s t y"
    by blast
  from put_lines_inputs[OF p] put_lines_sums[OF p] o
  show "map lineTaxAmount (lines ord) = map input_tax (applyAuto ls)"
    and "map lineTotal (lines ord) = map input_total (applyAuto ls)"
    and "subtotal ord = fsum (map input_subtotal (applyAuto ls))"
    and "taxAmount ord = fsum (map input_tax (applyAuto ls))"
    and "totalAmount ord = fadd (subtotal ord) (taxAmount ord)"
    by (simp_all add: fsum_def put_with_lines_def)
qed

text \<open>
  C2, as the specification states it, fails in the arithmetic of the handlers, which is
  binary floating point. A purchase order is created with one sheet of paper at 0.1 and
  two desks at 100, both with 10 % tax. The line totals are 0.11000000000000001 and 220,
  whose sum is 220.11 in floating point; the header total, the sum
  200.1 + 20.01 of subtotal and tax, is 220.10999999999999. The two differ, also when the
  line totals are added exactly. And the line tax \<^verbatim>\<open>lineSubtotal * (taxRate / 100)\<close> of the
  handlers is not \<^verbatim>\<open>quantity * unitPrice * taxRate / 100\<close>: for one item at 0.1 with 18 %
  tax the first is 0.018 and the second 0.018000000000000002.
\<close>

theorem total_differs_from_sum_of_line_totals:
  "map_sum id (\<lambda>ord. map lineTotal (lines ord))
      (fst (purchase_orders_POST (\<lambda>ls. ls) 0 ''o2'' (Some admin_user)
              (lines_body [paper_input, desk_input]) empty_store))
     = Inr [Num 7926335344172074 (- 56), Num 7740561859543040 (- 45)]
   \<and> fsum [Num 7926335344172074 (- 56), Num 7740561859543040 (- 45)] = Num 7744432140472812 (- 45)
   \<and> map_sum id totalAmount
      (fst (purchase_orders_POST (\<lambda>ls. ls) 0 ''o2'' (Some admin_user)
              (lines_body [paper_input, desk_input]) empty_store))
     = Inr (Num 7744432140472811 (- 45))
   \<and> nval (Num 7744432140472811 (- 45))
       \<noteq> nval (Num 7926335344172074 (- 56)) + nval (Num 7740561859543040 (- 45))
   \<and> fmul (fmul (integer 1) (decimal 1 1)) (fdiv (integer 18) (integer 100))
       \<noteq> fdiv (fmul (fmul (integer 1) (decimal 1 1)) (integer 18)) (integer 100)"
  by code_simp

text \<open>
  C2, amended. After the creation of a purchase order and after a \<^verbatim>\<open>PUT\<close> with lines, in the
  floating-point arithmetic of the handlers: the header subtotal is the sum of
  \<^verbatim>\<open>quantity * unitPrice\<close> over the lines, the header tax amount is the sum of the line tax
  amounts, the header total is subtotal + tax amount, and every line has
  \<^verbatim>\<open>taxAmount = (quantity * unitPrice) * (taxRate / 100)\<close> and
  \<^verbatim>\<open>lineTotal = quantity * unitPrice + taxAmount\<close>, the sums being taken from 0 in the order
  of the lines. The header total is the sum of the line totals when no line has tax.
\<close>

theorem header_totals:
  "(purchase_orders_POST applyAuto now newId usr body st = (Inr ord, st') \<longrightarrow>
      header_consistent ord \<and> purchaseOrders st' = purchaseOrders st @ [ord])
   \<and> (sales_order_PUT applyAuto now usr i sb st = (Inr so, ss) \<and> body_lines sb = Some sl \<longrightarrow>
      header_consistent so \<and> find_order i (salesOrders ss) = Some so)
   \<and> (purchase_order_PUT applyAuto now usr i pb st = (Inr po, ps) \<and> body_lines pb = Some pl \<longrightarrow>
      header_consistent po \<and> find_order i (purchaseOrders ps) = Some po)
   \<and> (header_consistent h \<and> list_all untaxed (lines h) \<longrightarrow>
      totalAmount h = fsum (map lineTotal (lines h)))"
proof (intro conjI impI)
  assume "purchase_orders_POST applyAuto now newId usr body st = (Inr ord, st')"
  then obtain ls rows s t where p: "post_lines (applyAuto ls) zero zero = (rows, s, t)"
    and o: "subtotal ord = s" "taxAmount ord = t" "totalAmount ord = fadd s t" "lines ord = rows"
    and a: "purchaseOrders st' = purchaseOrders st @ [ord]"
    using purchase_orders_POST_created by blast
  from post_lines_sums[OF p] o show "header_consistent ord"
    by (simp add: header_consistent_def fsum_def)
  from a show "purchaseOrders st' = purchaseOrders st @ [ord]" .
next
  assume "sales_order_PUT applyAuto now usr i sb st = (Inr so, ss) \<and> body_lines sb = Some sl"
  then obtain rows s t y where "put_lines (applyAuto sl) zero zero = (rows, s, t)"
    "so = put_with_lines sb rows s t y" "find_order i (salesOrders ss) = Some so"
    using sales_order_PUT_lines by blast
  then show "header_consistent so" and "find_order i (salesOrders ss) = Some so"
    by (simp_all add: header_put_with_lines)
next
  assume "purchase_order_PUT applyAuto now usr i pb st = (Inr po, ps) \<and> body_lines pb = Some pl"
  then obtain rows s t y where "put_lines (applyAuto pl) zero zero = (rows, s, t)"
    "po = put_with_lines pb rows s t y" "find_order i (purchaseOrders ps) = Some po"
    using purchase_order_PUT_lines by blast
  then show "header_consistent po" and "find_order i (purchaseOrders ps) = Some po"
    by (simp_all add: header_put_with_lines)
next
  assume "header_consistent h \<and> list_all untaxed (lines h)"
  then show "totalAmount h = fsum (map lineTotal (lines h))"
    by (simp add: untaxed_total)
qed

theorem header_totals_witness:
  "fst (purchase_orders_POST (\<lambda>ls. ls) 0 ''o2'' (Some admin_user) untaxed_body empty_store)
     = Inr (projr (fst (purchase_orders_POST (\<lambda>ls. ls) 0 ''o2'' (Some admin_user) untaxed_body empty_store)))
   \<and> header_consistent
       (projr (fst (purchase_orders_POST (\<lambda>ls. ls) 0 ''o2'' (Some admin_user) untaxed_body empty_store)))
   \<and> list_all untaxed
       (lines (projr (fst (purchase_orders_POST (\<lambda>ls. ls) 0 ''o2'' (Some admin_user) untaxed_body empty_store))))
   \<and> totalAmount (projr (fst (purchase_orders_POST (\<lambda>ls. ls) 0 ''o2'' (Some admin_user) untaxed_body empty_store)))
       = fsum (map lineTotal
           (lines (projr (fst (purchase_orders_POST (\<lambda>ls. ls) 0 ''o2'' (Some admin_user) untaxed_body empty_store)))))
   \<and> body_lines (lines_body [lamp_input]) = Some [lamp_input]
   \<and> fst (sales_order_PUT (\<lambda>ls. ls) 0 (Some admin_user) ''o1'' (lines_body [lamp_input]) sent_store)
       = Inr (projr (fst (sales_order_PUT (\<lambda>ls. ls) 0 (Some admin_user) ''o1'' (lines_body [lamp_input]) sent_store)))
   \<and> header_consistent
       (projr (fst (sales_order_PUT (\<lambda>ls. ls) 0 (Some admin_user) ''o1'' (lines_body [lamp_input]) sent_store)))
   \<and> fst (purchase_order_PUT (\<lambda>ls. ls) 0 (Some admin_user) ''o1'' (lines_body [lamp_input]) sent_store)
       = Inr (projr (fst (purchase_order_PUT (\<lambda>ls. ls) 0 (Some admin_user) ''o1'' (lines_body [lamp_input]) sent_store)))
   \<and> header_consistent
       (projr (fst (purchase_order_PUT (\<lambda>ls. ls) 0 (Some admin_user) ''o1'' (lines_body [lamp_input]) sent_store)))"
proof -
  let ?c = "purchase_orders_POST (\<lambda>ls. ls) 0 ''o2'' (Some admin_user) untaxed_body empty_store"
  let ?s = "sales_order_PUT (\<lambda>ls. ls) 0 (Some admin_user) ''o1'' (lines_body [lamp_input]) sent_store"
  let ?p = "purchase_order_PUT (\<lambda>ls. ls) 0 (Some admin_user) ''o1'' (lines_body [lamp_input]) sent_store"
  have a: "fst ?c = Inr (projr (fst ?c))" by code_simp
  have b: "list_all untaxed (lines (projr (fst ?c)))" by code_simp
  have c: "body_lines (lines_body [lamp_input]) = Some [lamp_input]" by code_simp
  have d: "fst ?s = Inr (projr (fst ?s))" by code_simp
  have e: "fst ?p = Inr (projr (fst ?p))" by code_simp
  from a have a': "?c = (Inr (projr (fst ?c)), snd ?c)" by (metis prod.collapse)
  from d have d': "?s = (Inr (projr (fst ?s)), snd ?s)" by (metis prod.collapse)
  from e have e': "?p = (Inr (projr (fst ?p)), snd ?p)" by (metis prod.collapse)
  have h1: "header_consistent (projr (fst ?c))"
    using a' header_totals[where applyAuto = "\<lambda>ls. ls" and now = 0 and newId = "''o2''"
      and usr = "Some admin_user" and body = untaxed_body and st = empty_store
      and ord = "projr (fst ?c)" and st' = "snd ?c"]
    by blast
  have h2: "totalAmount (projr (fst ?c)) = fsum (map lineTotal (lines (projr (fst ?c))))"
    using h1 b header_totals[where h = "projr (fst ?c)"] by blast
  have h3: "header_consistent (projr (fst ?s))"
    using d' c header_totals[where applyAuto = "\<lambda>ls. ls" and now = 0 and i = "''o1''"
      and usr = "Some admin_user" and sb = "lines_body [lamp_input]" and st = sent_store
      and so = "projr (fst ?s)" and ss = "snd ?s" and sl = "[lamp_input]"]
    by blast
  have h4: "header_consistent (projr (fst ?p))"
    using e' c header_totals[where applyAuto = "\<lambda>ls. ls" and now = 0 and i = "''o1''"
      and usr = "Some admin_user" and pb = "lines_body [lamp_input]" and st = sent_store
      and po = "projr (fst ?p)" and ps = "snd ?p" and pl = "[lamp_input]"]
    by blast
  from a b c d e h1 h2 h3 h4 show ?thesis by blast
qed

section \<open>Arithmetic of the amounts\<close>

text \<open>
  C6, as the specification states it, fails: the handlers compute in binary floating
  point and never round to a unit of the currency. For one lamp at 19.99 with 18 % tax
  the line tax that the \<^verbatim>\<open>PUT\<close> handler stores is 3.5981999999999994. It is neither the
  tax rounded half-up, 3.60, nor the decimal product 3.5982; and the number that stands
  for the unit price is not the decimal 19.99.
\<close>

theorem line_tax_neither_decimal_nor_rounded:
  "map_sum id (\<lambda>ord. map lineTaxAmount (lines ord))
      (fst (sales_order_PUT (\<lambda>ls. ls) 0 (Some admin_user) ''o1'' (lines_body [lamp_input]) sent_store))
     = Inr [Num 8102426089602258 (- 51)]
   \<and> round_half_up (1 * (1999 / 100) * 18 / 100) = 360 / 100
   \<and> nval (Num 8102426089602258 (- 51)) \<noteq> 360 / 100
   \<and> nval (Num 8102426089602258 (- 51)) \<noteq> 1 * (1999 / 100) * 18 / 100
   \<and> nval (decimal 1999 2) \<noteq> 1999 / 100"
  by code_simp

text \<open>
  C6, amended. The amounts are computed in the binary floating-point arithmetic of
  JavaScript numbers. For every line of the request the stored tax is
  \<^verbatim>\<open>(quantity * unitPrice) * (taxRate / 100)\<close> and the stored line total is the line subtotal
  plus that tax, every operation rounded to the nearest number and none rounded to a unit
  of the currency; the header subtotal and tax amount are the sums of these line values,
  accumulated from 0 in the order of the lines, and the header total is their sum: the
  header is not rounded either.
\<close>

theorem line_amounts_binary:
  "(purchase_orders_POST applyAuto now newId usr body st = (Inr ord, st')
      \<and> body_lines body = Some ls \<longrightarrow>
      map lineTaxAmount (lines ord) = map input_tax (applyAuto ls)
      \<and> map lineTotal (lines ord) = map input_total (applyAuto ls)
      \<and> subtotal ord = fsum (map input_subtotal (applyAuto ls))
      \<and> taxAmount ord = fsum (map input_tax (applyAuto ls))
      \<and> totalAmount ord = fadd (subtotal ord) (taxAmount ord))
   \<and> (sales_order_PUT applyAuto now usr i sb st = (Inr so, ss) \<and> body_lines sb = Some sl \<longrightarrow>
      map lineTaxAmount (lines so) = map input_tax (applyAuto sl)
      \<and> map lineTotal (lines so) = map input_total (applyAuto sl)
      \<and> subtotal so = fsum (map input_subtotal (applyAuto sl))
      \<and> taxAmount so = fsum (map input_tax (applyAuto sl))
      \<and> totalAmount so = fadd (subtotal so) (taxAmount so))"
proof (intro conjI impI)
  assume "purchase_orders_POST applyAuto now newId usr body st = (Inr ord, st')
      \<and> body_lines body = Some ls"
  then have p: "purchase_orders_POST applyAuto now newId usr body st = (Inr ord, st')"
    and l: "body_lines body = Some ls" by simp_all
  show "map lineTaxAmount (lines ord) = map input_tax (applyAuto ls)"
    and "map lineTotal (lines ord) = map input_total (applyAuto ls)"
    and "subtotal ord = fsum (map input_subtotal (applyAuto ls))"
    and "taxAmount ord = fsum (map input_tax (applyAuto ls))"
    and "totalAmount ord = fadd (subtotal ord) (taxAmount ord)"
    by (rule purchase_orders_POST_amounts[OF p l])+
next
  assume "sales_order_PUT applyAuto now usr i sb st = (Inr so, ss) \<and> body_lines sb = Some sl"
  then have p: "sales_order_PUT applyAuto now usr i sb st = (Inr so, ss)"
    and l: "body_lines sb = Some sl" by simp_all
  show "map lineTaxAmount (lines so) = map input_tax (applyAuto sl)"
    and "map lineTotal (lines so) = map input_total (applyAuto sl)"
    and "subtotal so = fsum (map input_subtotal (applyAuto sl))"
    and "taxAmount so = fsum (map input_tax (applyAuto sl))"
    and "totalAmount so = fadd (subtotal so) (taxAmount so)"
    by (rule sales_order_PUT_amounts[OF p l])+
qed

theorem line_amounts_binary_witness:
  "body_lines (lines_body [paper_input, desk_input]) = Some [paper_input, desk_input]
   \<and> fst (purchase_orders_POST (\<lambda>ls. ls) 0 ''o2'' (Some admin_user) (lines_body [paper_input, desk_input]) empty_store)
       = Inr (projr (fst (purchase_orders_POST (\<lambda>ls. ls) 0 ''o2'' (Some admin_user)
                (lines_body [paper_input, desk_input]) empty_store)))
   \<and> map lineTaxAmount (lines (projr (fst (purchase_orders_POST (\<lambda>ls. ls) 0 ''o2'' (Some admin_user)
                (lines_body [paper_input, desk_input]) empty_store))))
       = [input_tax paper_input, input_tax desk_input]
   \<and> taxAmount (projr (fst (purchase_orders_POST (\<lambda>ls. ls) 0 ''o2'' (Some admin_user)
                (lines_body [paper_input, desk_input]) empty_store)))
       = fsum [input_tax paper_input, input_tax desk_input]
   \<and> body_lines (lines_body [lamp_input]) = Some [lamp_input]
   \<and> fst (sales_order_PUT (\<lambda>ls. ls) 0 (Some admin_user) ''o1'' (lines_body [lamp_input]) sent_store)
       = Inr (projr (fst (sales_order_PUT (\<lambda>ls. ls) 0 (Some admin_user) ''o1'' (lines_body [lamp_input]) sent_store)))
   \<and> map lineTaxAmount (lines (projr (fst (sales_order_PUT (\<lambda>ls. ls) 0 (Some admin_user) ''o1''
                (lines_body [lamp_input]) sent_store))))
       = [input_tax lamp_input]
   \<and> taxAmount (projr (fst (sales_order_PUT (\<lambda>ls. ls) 0 (Some admin_user) ''o1''
                (lines_body [lamp_input]) sent_store)))
       = fsum [input_tax lamp_input]"
proof -
  let ?c = "purchase_orders_POST (\<lambda>ls. ls) 0 ''o2'' (Some admin_user) (lines_body [paper_input, desk_input]) empty_store"
  let ?s = "sales_order_PUT (\<lambda>ls. ls) 0 (Some admin_user) ''o1'' (lines_body [lamp_input]) sent_store"
  have a: "body_lines (lines_body [paper_input, desk_input]) = Some [paper_input, desk_input]" by code_simp
  have b: "fst ?c = Inr (projr (fst ?c))" by code_simp
  have c: "body_lines (lines_body [lamp_input]) = Some [lamp_input]" by code_simp
  have d: "fst ?s = Inr (projr (fst ?s))" by code_simp
  from b have b': "?c = (Inr (projr (fst ?c)), snd ?c)" by (metis prod.collapse)
  from d have d': "?s = (Inr (projr (fst ?s)), snd ?s)" by (metis prod.collapse)
  have h1: "map lineTaxAmount (lines (projr (fst ?c))) = [input_tax paper_input, input_tax desk_input]
      \<and> taxAmount (projr (fst ?c)) = fsum [input_tax paper_input, input_tax desk_input]"
    using a b' line_amounts_binary[where applyAuto = "\<lambda>ls. ls" and now = 0 and newId = "''o2''"
      and usr = "Some admin_user" and body = "lines_body [paper_input, desk_input]" and st = empty_store
      and ord = "projr (fst ?c)" and st' = "snd ?c" and ls = "[paper_input, desk_input]"]
    by simp
  have h2: "map lineTaxAmount (lines (projr (fst ?s))) = [input_tax lamp_input]
      \<and> taxAmount (projr (fst ?s)) = fsum [input_tax lamp_input]"
    using c d' line_amounts_binary[where applyAuto = "\<lambda>ls. ls" and now = 0 and i = "''o1''"
      and usr = "Some admin_user" and sb = "lines_body [lamp_input]" and st = sent_store
      and so = "projr (fst ?s)" and ss = "snd ?s" and sl = "[lamp_input]"]
    by simp
  from a b c d h1 h2 show ?thesis by blast
qed

section \<open>Product prices\<close>

lemma products_POST_rejects:
  "isAdmin u \<Longrightarrow> js_less (body_salePrice body) (body_purchasePrice body) \<Longrightarrow>
   products_POST newId (Some u) body st
     = (Inl (Err 400 ''Sale Price cannot be less than Purchase Price''), st)"
  by (simp add: products_POST_def)

lemma product_PUT_rejects:
  "isAdmin u \<Longrightarrow> body_salePrice body = Some s \<Longrightarrow> body_purchasePrice body = Some p \<Longrightarrow>
   fless s p \<Longrightarrow>
   product_PUT (Some u) i body st
     = (Inl (Err 400 ''Sale Price cannot be less than Purchase Price''), st)"
  by (simp add: product_PUT_def js_less_def)

text \<open>
  C10. A request with a sale price below the purchase price must be rejected, so that
  \<open>salePrice \<ge> purchasePrice\<close> holds after every create and every update. The update
  handler compares the two prices only when the body carries both: a body with the sale
  price alone is accepted, and the stored row ends with a sale price of 1 below its
  purchase price of 100.
\<close>

theorem product_PUT_sale_price_only:
  "product_PUT (Some admin_user) ''p1'' sale_only_body (empty_store\<lparr>products := [chair]\<rparr>)
     = (Inr (chair\<lparr>salePrice := Some (integer 1)\<rparr>),
        empty_store\<lparr>products := [chair\<lparr>salePrice := Some (integer 1)\<rparr>]\<rparr>)
   \<and> js_less (salePrice (chair\<lparr>salePrice := Some (integer 1)\<rparr>))
              (purchasePrice (chair\<lparr>salePrice := Some (integer 1)\<rparr>))"
  by code_simp

section \<open>The payment ledger\<close>

lemma find_doc_Some: "find_doc r ds = Some d \<Longrightarrow> d \<in> set ds \<and> ld_ref d = r"
  by (auto simp: find_doc_def find_Some_iff)

lemma distinct_ref_unique:
  "distinct (map ld_ref ds) \<Longrightarrow> x \<in> set ds \<Longrightarrow> y \<in> set ds \<Longrightarrow> ld_ref x = ld_ref y \<Longrightarrow> x = y"
  by (simp add: distinct_map inj_on_def)

lemma paid_sum_append:
  "paid_sum r (ps @ [p]) = paid_sum r ps + (if target p = Some r then amount p else 0)"
  by (simp add: paid_sum_def)

lemma map_ld_ref_add_paid [simp]: "map ld_ref (add_paid r a ds) = map ld_ref ds"
  by (induction ds) (simp_all add: add_paid_def)

lemma recordPayment_rejected:
  "fst (recordPayment p L) = Inl e \<Longrightarrow> snd (recordPayment p L) = L"
  by (auto simp: recordPayment_def split: option.splits if_splits)

lemma recordPayment_accepted:
  assumes "recordPayment p L = (Inr q, L')"
  shows "0 < amount p" and "q = p" and "payments L' = payments L @ [p]"
    and "target p = None \<Longrightarrow> ledgerDocs L' = ledgerDocs L"
    and "target p = Some r \<Longrightarrow>
           \<exists>d. find_doc r (ledgerDocs L) = Some d \<and> ld_status d \<noteq> DOC_CANCELLED
              \<and> amount p \<le> ld_totalAmount d - ld_paidAmount d
              \<and> ledgerDocs L' = add_paid r (amount p) (ledgerDocs L)"
  using assms by (auto simp: recordPayment_def split: option.splits if_splits)

lemma recordPayment_exceeds:
  assumes "0 < amount p" and "target p = Some r" and "find_doc r (ledgerDocs L) = Some d"
    and "ld_status d \<noteq> DOC_CANCELLED" and "ld_totalAmount d - ld_paidAmount d < amount p"
  shows "recordPayment p L = (Inl (ValidationError ''exceeds amount due''), L)"
  using assms by (simp add: recordPayment_def)

lemma recordPayment_ok:
  assumes "ledger_ok L"
  shows "ledger_ok (snd (recordPayment p L))"
proof (cases "fst (recordPayment p L)")
  case (Inl e)
  with assms show ?thesis by (simp add: recordPayment_rejected)
next
  case (Inr q)
  then have rp: "recordPayment p L = (Inr q, snd (recordPayment p L))" by (metis prod.collapse)
  let ?L' = "snd (recordPayment p L)"
  note acc = recordPayment_accepted[OF rp]
  show ?thesis
  proof (cases "target p")
    case None
    with acc assms show ?thesis
      by (auto simp: ledger_ok_def list_all_iff doc_ok_def paid_sum_append)
  next
    case (Some r)
    with acc(5) obtain d where d: "find_doc r (ledgerDocs L) = Some d"
      and due: "amount p \<le> ld_totalAmount d - ld_paidAmount d"
      and docs: "ledgerDocs ?L' = add_paid r (amount p) (ledgerDocs L)" by blast
    from d have din: "d \<in> set (ledgerDocs L)" "ld_ref d = r" using find_doc_Some by auto
    from assms have dist: "distinct (map ld_ref (ledgerDocs L))"
      and ok: "\<And>x. x \<in> set (ledgerDocs L) \<Longrightarrow> doc_ok (payments L) x"
      by (auto simp: ledger_ok_def list_all_iff)
    have "doc_ok (payments L @ [p]) y" if "y \<in> set (add_paid r (amount p) (ledgerDocs L))" for y
    proof -
      from that obtain x where x: "x \<in> set (ledgerDocs L)"
        and y: "y = (if ld_ref x = r then x\<lparr>ld_paidAmount := ld_paidAmount x + amount p\<rparr> else x)"
        by (auto simp: add_paid_def)
      show ?thesis
      proof (cases "ld_ref x = r")
        case True
        with dist x din have "x = d" using distinct_ref_unique by blast
        with True y ok[OF x] due Some show ?thesis
          by (simp add: doc_ok_def paid_sum_append)
      next
        case False
        with y ok[OF x] Some show ?thesis
          by (auto simp: doc_ok_def paid_sum_append)
      qed
    qed
    with dist docs acc(3) show ?thesis
      by (simp add: ledger_ok_def list_all_iff)
  qed
qed

lemma recordPayments_ok: "ledger_ok L \<Longrightarrow> ledger_ok (recordPayments ps L)"
  unfolding recordPayments_def
  by (induction ps arbitrary: L) (simp_all add: recordPayment_ok)

text \<open>
  C8. On the ledger modelled from the specification: \<^verbatim>\<open>recordPayment\<close> succeeds only when the
  amount is positive and, for a payment with a target, the document exists, is not
  cancelled and the amount is at most what is due, and under these conditions it does
  succeed, inserting the payment and adding the amount to the paid amount of the document
  in one step; an amount above what is due is rejected with the validation error
  "exceeds amount due", and every rejection leaves the ledger as it was. From a ledger
  whose paid amounts are the sums of the payments, every sequence of calls leads to such
  a ledger, in which the sum of the payments of each document is at most its total. A
  document paid in full rejects every further payment of a positive amount.
\<close>

theorem payment_ledger:
  "(recordPayment p L = (Inr q, L') \<longrightarrow>
      0 < amount p \<and> payments L' = payments L @ [p]
      \<and> (target p = Some r \<longrightarrow>
           (\<exists>d. find_doc r (ledgerDocs L) = Some d \<and> ld_status d \<noteq> DOC_CANCELLED
              \<and> amount p \<le> ld_totalAmount d - ld_paidAmount d
              \<and> ledgerDocs L' = add_paid r (amount p) (ledgerDocs L))))
   \<and> (0 < amount p \<and> target p = Some r \<and> find_doc r (ledgerDocs L) = Some d
        \<and> ld_status d \<noteq> DOC_CANCELLED \<and> amount p \<le> ld_totalAmount d - ld_paidAmount d \<longrightarrow>
      recordPayment p L
        = (Inr p, \<lparr>ledgerDocs = add_paid r (amount p) (ledgerDocs L), payments = payments L @ [p]\<rparr>))
   \<and> (0 < amount p \<and> target p = Some r \<and> find_doc r (ledgerDocs L) = Some d
        \<and> ld_status d \<noteq> DOC_CANCELLED \<and> ld_totalAmount d - ld_paidAmount d < amount p \<longrightarrow>
      recordPayment p L = (Inl (ValidationError ''exceeds amount due''), L))
   \<and> (fst (recordPayment p L) = Inl e \<longrightarrow> snd (recordPayment p L) = L)
   \<and> (ledger_ok L \<longrightarrow>
      ledger_ok (recordPayments ps L)
      \<and> list_all (\<lambda>x. paid_sum (ld_ref x) (payments (recordPayments ps L)) \<le> ld_totalAmount x)
           (ledgerDocs (recordPayments ps L)))
   \<and> (0 < amount p \<and> target p = Some r \<and> find_doc r (ledgerDocs L) = Some d
        \<and> ld_status d \<noteq> DOC_CANCELLED \<and> ld_paidAmount d = ld_totalAmount d \<longrightarrow>
      recordPayment p L = (Inl (ValidationError ''exceeds amount due''), L))"
proof (intro conjI impI)
  assume a: "recordPayment p L = (Inr q, L')"
  then show "0 < amount p" and "payments L' = payments L @ [p]"
    by (rule recordPayment_accepted)+
  assume "target p = Some r"
  with a show "\<exists>d. find_doc r (ledgerDocs L) = Some d \<and> ld_status d \<noteq> DOC_CANCELLED
              \<and> amount p \<le> ld_totalAmount d - ld_paidAmount d
              \<and> ledgerDocs L' = add_paid r (amount p) (ledgerDocs L)"
    by (rule recordPayment_accepted)
next
  assume "0 < amount p \<and> target p = Some r \<and> find_doc r (ledgerDocs L) = Some d
        \<and> ld_status d \<noteq> DOC_CANCELLED \<and> amount p \<le> ld_totalAmount d - ld_paidAmount d"
  then show "recordPayment p L
        = (Inr p, \<lparr>ledgerDocs = add_paid r (amount p) (ledgerDocs L), payments = payments L @ [p]\<rparr>)"
    by (simp add: recordPayment_def)
next
  assume "0 < amount p \<and> target p = Some r \<and> find_doc r (ledgerDocs L) = Some d
        \<and> ld_status d \<noteq> DOC_CANCELLED \<and> ld_totalAmount d - ld_paidAmount d < amount p"
  then show "recordPayment p L = (Inl (ValidationError ''exceeds amount due''), L)"
    by (simp add: recordPayment_exceeds)
next
  assume "fst (recordPayment p L) = Inl e"
  then show "snd (recordPayment p L) = L" by (rule recordPayment_rejected)
next
  assume "ledger_ok L"
  then have ok: "ledger_ok (recordPayments ps L)" by (rule recordPayments_ok)
  then show "ledger_ok (recordPayments ps L)" .
  from ok show "list_all (\<lambda>x. paid_sum (ld_ref x) (payments (recordPayments ps L)) \<le> ld_totalAmount x)
           (ledgerDocs (recordPayments ps L))"
    by (auto simp: ledger_ok_def list_all_iff doc_ok_def)
next
  assume "0 < amount p \<and> target p = Some r \<and> find_doc r (ledgerDocs L) = Some d
        \<and> ld_status d \<noteq> DOC_CANCELLED \<and> ld_paidAmount d = ld_totalAmount d"
  then show "recordPayment p L = (Inl (ValidationError ''exceeds amount due''), L)"
    by (simp add: recordPayment_exceeds)
qed

theorem payment_ledger_witness:
  "recordPayment (pay_bill 236) open_ledger = (Inr (pay_bill 236), paid_ledger)
   \<and> (0::rat) < amount (pay_bill 236)
   \<and> payments paid_ledger = payments open_ledger @ [pay_bill 236]
   \<and> target (pay_bill 236) = Some (VendorBillRef ''b1'')
   \<and> find_doc (VendorBillRef ''b1'') (ledgerDocs open_ledger) = Some bill_236
   \<and> ld_status bill_236 \<noteq> DOC_CANCELLED
   \<and> amount (pay_bill 236) \<le> ld_totalAmount bill_236 - ld_paidAmount bill_236
   \<and> ledgerDocs paid_ledger = add_paid (VendorBillRef ''b1'') (amount (pay_bill 236)) (ledgerDocs open_ledger)
   \<and> (0::rat) < amount (pay_bill 237) \<and> target (pay_bill 237) = Some (VendorBillRef ''b1'')
   \<and> ld_totalAmount bill_236 - ld_paidAmount bill_236 < amount (pay_bill 237)
   \<and> recordPayment (pay_bill 237) open_ledger = (Inl (ValidationError ''exceeds amount due''), open_ledger)
   \<and> fst (recordPayment (pay_bill 0) open_ledger) = Inl (ValidationError ''amount must be positive'')
   \<and> snd (recordPayment (pay_bill 0) open_ledger) = open_ledger
   \<and> ledger_ok open_ledger
   \<and> ledger_ok (recordPayments [pay_bill 100, pay_bill 236, pay_bill 136, pay_bill 1] open_ledger)
   \<and> list_all (\<lambda>x. paid_sum (ld_ref x)
          (payments (recordPayments [pay_bill 100, pay_bill 236, pay_bill 136, pay_bill 1] open_ledger))
            \<le> ld_totalAmount x)
        (ledgerDocs (recordPayments [pay_bill 100, pay_bill 236, pay_bill 136, pay_bill 1] open_ledger))
   \<and> (0::rat) < amount (pay_bill (1 / 100))
   \<and> target (pay_bill (1 / 100)) = Some (VendorBillRef ''b1'')
   \<and> find_doc (VendorBillRef ''b1'') (ledgerDocs paid_ledger) = Some (bill_236\<lparr>ld_paidAmount := 236\<rparr>)
   \<and> ld_status (bill_236\<lparr>ld_paidAmount := 236\<rparr>) \<noteq> DOC_CANCELLED
   \<and> ld_paidAmount (bill_236\<lparr>ld_paidAmount := 236\<rparr>) = ld_totalAmount (bill_236\<lparr>ld_paidAmount := 236\<rparr>)
   \<and> recordPayment (pay_bill (1 / 100)) paid_ledger
       = (Inl (ValidationError ''exceeds amount due''), paid_ledger)"
proof -
  let ?r = "VendorBillRef ''b1''"
  let ?ps = "[pay_bill 100, pay_bill 236, pay_bill 136, pay_bill 1]"
  let ?d = "bill_236\<lparr>ld_paidAmount := 236\<rparr>"
  have a: "(0::rat) < amount (pay_bill 236)" "target (pay_bill 236) = Some ?r"
          "find_doc ?r (ledgerDocs open_ledger) = Some bill_236" "ld_status bill_236 \<noteq> DOC_CANCELLED"
          "amount (pay_bill 236) \<le> ld_totalAmount bill_236 - ld_paidAmount bill_236"
    by code_simp+
  have a2: "\<lparr>ledgerDocs = add_paid ?r (amount (pay_bill 236)) (ledgerDocs open_ledger),
             payments = payments open_ledger @ [pay_bill 236]\<rparr> = paid_ledger"
    by code_simp
  have b: "(0::rat) < amount (pay_bill 237)" "target (pay_bill 237) = Some ?r"
          "ld_totalAmount bill_236 - ld_paidAmount bill_236 < amount (pay_bill 237)"
    by code_simp+
  have c: "fst (recordPayment (pay_bill 0) open_ledger) = Inl (ValidationError ''amount must be positive'')"
    by code_simp
  have d: "ledger_ok open_ledger" by code_simp
  have e: "(0::rat) < amount (pay_bill (1 / 100))" "target (pay_bill (1 / 100)) = Some ?r"
          "find_doc ?r (ledgerDocs paid_ledger) = Some ?d" "ld_status ?d \<noteq> DOC_CANCELLED"
          "ld_paidAmount ?d = ld_totalAmount ?d"
    by code_simp+
  have "recordPayment (pay_bill 236) open_ledger
      = (Inr (pay_bill 236), \<lparr>ledgerDocs = add_paid ?r (amount (pay_bill 236)) (ledgerDocs open_ledger),
                               payments = payments open_ledger @ [pay_bill 236]\<rparr>)"
    using a payment_ledger[where p = "pay_bill 236" and L = open_ledger and r = ?r and d = bill_236]
    by blast
  then have h1: "recordPayment (pay_bill 236) open_ledger = (Inr (pay_bill 236), paid_ledger)"
    by (simp only: a2)
  have h2: "payments paid_ledger = payments open_ledger @ [pay_bill 236]
      \<and> ledgerDocs paid_ledger = add_paid ?r (amount (pay_bill 236)) (ledgerDocs open_ledger)"
    using h1 a(2) payment_ledger[where p = "pay_bill 236" and L = open_ledger and r = ?r
      and q = "pay_bill 236" and L' = paid_ledger]
    by blast
  have h3: "recordPayment (pay_bill 237) open_ledger = (Inl (ValidationError ''exceeds amount due''), open_ledger)"
    using a(3,4) b payment_ledger[where p = "pay_bill 237" and L = open_ledger and r = ?r and d = bill_236]
    by blast
  have h4: "snd (recordPayment (pay_bill 0) open_ledger) = open_ledger"
    using c payment_ledger[where p = "pay_bill 0" and L = open_ledger
      and e = "ValidationError ''amount must be positive''"]
    by blast
  have h5: "ledger_ok (recordPayments ?ps open_ledger)
      \<and> list_all (\<lambda>x. paid_sum (ld_ref x) (payments (recordPayments ?ps open_ledger)) \<le> ld_totalAmount x)
           (ledgerDocs (recordPayments ?ps open_ledger))"
    using d payment_ledger[where L = open_ledger and ps = ?ps] by blast
  have h6: "recordPayment (pay_bill (1 / 100)) paid_ledger
       = (Inl (ValidationError ''exceeds amount due''), paid_ledger)"
    using e payment_ledger[where p = "pay_bill (1 / 100)" and L = paid_ledger and r = ?r and d = ?d]
    by blast
  from a b c d e h1 h2 h3 h4 h5 h6 show ?thesis by blast
qed

section \<open>The auto-analytical rule engine\<close>

lemma most_specific_in: "most_specific c cs \<in> set (c # cs)"
  unfolding most_specific_def
proof (induction cs arbitrary: c)
  case Nil
  then show ?case by simp
next
  case (Cons x xs)
  from Cons[of "if specificity c < specificity x then x else c"] show ?case by auto
qed

lemma most_specific_ge_start: "specificity c \<le> specificity (most_specific c cs)"
  unfolding most_specific_def
proof (induction cs arbitrary: c)
  case Nil
  then show ?case by simp
next
  case (Cons x xs)
  from Cons[of "if specificity c < specificity x then x else c"] show ?case
    by (auto split: if_splits)
qed

lemma most_specific_max: "x \<in> set (c # cs) \<Longrightarrow> specificity x \<le> specificity (most_specific c cs)"
proof (induction cs arbitrary: c)
  case Nil
  then show ?case by (simp add: most_specific_def)
next
  case (Cons y ys)
  let ?b = "if specificity c < specificity y then y else c"
  have step: "most_specific c (y # ys) = most_specific ?b ys" by (simp add: most_specific_def)
  from Cons.prems consider "x = c" | "x = y" | "x \<in> set ys" by auto
  then show ?case
  proof cases
    case 1
    have "specificity c \<le> specificity ?b" by simp
    also have "\<dots> \<le> specificity (most_specific ?b ys)" by (rule most_specific_ge_start)
    finally show ?thesis using 1 step by simp
  next
    case 2
    have "specificity y \<le> specificity ?b" by simp
    also have "\<dots> \<le> specificity (most_specific ?b ys)" by (rule most_specific_ge_start)
    finally show ?thesis using 2 step by simp
  next
    case 3
    then have "x \<in> set (?b # ys)" by simp
    from Cons.IH[OF this] step show ?thesis by simp
  qed
qed

lemma resolve_candidate:
  assumes "explicitAccountId a = None" and "candidates rules a \<noteq> []"
  shows "\<exists>r. r \<in> set (candidates rules a)
           \<and> resolveAnalyticalAccount rules a = Some (rule_analyticalAccountId r)
           \<and> list_all (\<lambda>c. specificity c \<le> specificity r) (candidates rules a)"
proof -
  from assms(2) obtain c cs where cs: "candidates rules a = c # cs" by (cases "candidates rules a") auto
  let ?r = "most_specific c cs"
  have "?r \<in> set (candidates rules a)" using most_specific_in[of c cs] cs by simp
  moreover have "resolveAnalyticalAccount rules a = Some (rule_analyticalAccountId ?r)"
    using assms(1) cs by (simp add: resolveAnalyticalAccount_def)
  moreover have "list_all (\<lambda>x. specificity x \<le> specificity ?r) (candidates rules a)"
    using most_specific_max[of _ c cs] cs by (simp add: list_all_iff)
  ultimately show ?thesis by blast
qed

lemma resolve_unique_best:
  assumes "explicitAccountId a = None" and "r \<in> set (candidates rules a)"
    and "list_all (\<lambda>c. c = r \<or> specificity c < specificity r) (candidates rules a)"
  shows "resolveAnalyticalAccount rules a = Some (rule_analyticalAccountId r)"
proof -
  from assms(2) have ne: "candidates rules a \<noteq> []" by auto
  from resolve_candidate[OF assms(1) ne] obtain b where b: "b \<in> set (candidates rules a)"
    "resolveAnalyticalAccount rules a = Some (rule_analyticalAccountId b)"
    "list_all (\<lambda>c. specificity c \<le> specificity b) (candidates rules a)" by blast
  from b(3) assms(2) have "specificity r \<le> specificity b" by (simp add: list_all_iff)
  moreover from assms(3) b(1) have "b = r \<or> specificity b < specificity r" by (simp add: list_all_iff)
  ultimately have "b = r" by auto
  with b(2) show ?thesis by simp
qed

text \<open>
  C9. On the engine modelled from the specification: an explicit account of the line is
  returned unchanged; otherwise, when some rule is a candidate, the account returned is
  that of a candidate whose specificity no candidate exceeds, so that a candidate more
  specific than every other one is the rule selected (rule B, which names category and
  partner, before rule A, which names the category only); and without a candidate the
  result is the default account of the product, which is \<open>None\<close> when the product has none.
\<close>

theorem analytical_account_resolution:
  "(explicitAccountId a = Some x \<longrightarrow> resolveAnalyticalAccount rules a = Some x)
   \<and> (explicitAccountId a = None \<and> candidates rules a \<noteq> [] \<longrightarrow>
      (\<exists>r. r \<in> set (candidates rules a)
         \<and> resolveAnalyticalAccount rules a = Some (rule_analyticalAccountId r)
         \<and> list_all (\<lambda>c. specificity c \<le> specificity r) (candidates rules a)))
   \<and> (explicitAccountId a = None \<and> b \<in> set (candidates rules a)
        \<and> list_all (\<lambda>c. c = b \<or> specificity c < specificity b) (candidates rules a) \<longrightarrow>
      resolveAnalyticalAccount rules a = Some (rule_analyticalAccountId b))
   \<and> (explicitAccountId a = None \<and> candidates rules a = [] \<longrightarrow>
      resolveAnalyticalAccount rules a = productDefaultAccountId a)"
proof (intro conjI impI)
  assume "explicitAccountId a = Some x"
  then show "resolveAnalyticalAccount rules a = Some x" by (simp add: resolveAnalyticalAccount_def)
next
  assume "explicitAccountId a = None \<and> candidates rules a \<noteq> []"
  then show "\<exists>r. r \<in> set (candidates rules a)
         \<and> resolveAnalyticalAccount rules a = Some (rule_analyticalAccountId r)
         \<and> list_all (\<lambda>c. specificity c \<le> specificity r) (candidates rules a)"
    using resolve_candidate by blast
next
  assume "explicitAccountId a = None \<and> b \<in> set (candidates rules a)
        \<and> list_all (\<lambda>c. c = b \<or> specificity c < specificity b) (candidates rules a)"
  then show "resolveAnalyticalAccount rules a = Some (rule_analyticalAccountId b)"
    using resolve_unique_best by blast
next
  assume "explicitAccountId a = None \<and> candidates rules a = []"
  then show "resolveAnalyticalAccount rules a = productDefaultAccountId a"
    by (simp add: resolveAnalyticalAccount_def)
qed

theorem analytical_account_resolution_witness:
  "explicitAccountId (line_C_P\<lparr>explicitAccountId := Some ''account-X''\<rparr>) = Some ''account-X''
   \<and> resolveAnalyticalAccount [rule_A, rule_B] (line_C_P\<lparr>explicitAccountId := Some ''account-X''\<rparr>)
       = Some ''account-X''
   \<and> explicitAccountId line_C_P = None
   \<and> candidates [rule_A, rule_B] line_C_P \<noteq> []
   \<and> (\<exists>r. r \<in> set (candidates [rule_A, rule_B] line_C_P)
         \<and> resolveAnalyticalAccount [rule_A, rule_B] line_C_P = Some (rule_analyticalAccountId r)
         \<and> list_all (\<lambda>c. specificity c \<le> specificity r) (candidates [rule_A, rule_B] line_C_P))
   \<and> specificity rule_A = 1 \<and> specificity rule_B = 2
   \<and> rule_B \<in> set (candidates [rule_A, rule_B] line_C_P)
   \<and> list_all (\<lambda>c. c = rule_B \<or> specificity c < specificity rule_B) (candidates [rule_A, rule_B] line_C_P)
   \<and> resolveAnalyticalAccount [rule_A, rule_B] line_C_P = Some ''account-B''
   \<and> rule_B \<in> set (candidates [rule_B, rule_A] line_C_P)
   \<and> list_all (\<lambda>c. c = rule_B \<or> specificity c < specificity rule_B) (candidates [rule_B, rule_A] line_C_P)
   \<and> resolveAnalyticalAccount [rule_B, rule_A] line_C_P = Some ''account-B''
   \<and> explicitAccountId line_other = None
   \<and> candidates [rule_A, rule_B] line_other = []
   \<and> resolveAnalyticalAccount [rule_A, rule_B] line_other = Some ''account-D''"
proof -
  let ?x = "line_C_P\<lparr>explicitAccountId := Some ''account-X''\<rparr>"
  have a: "explicitAccountId ?x = Some ''account-X''" by code_simp
  have b: "explicitAccountId line_C_P = None" "candidates [rule_A, rule_B] line_C_P \<noteq> []" by code_simp+
  have c: "specificity rule_A = 1" "specificity rule_B = 2" by code_simp+
  have d: "rule_B \<in> set (candidates [rule_A, rule_B] line_C_P)"
          "list_all (\<lambda>c. c = rule_B \<or> specificity c < specificity rule_B) (candidates [rule_A, rule_B] line_C_P)"
    by code_simp+
  have e: "rule_B \<in> set (candidates [rule_B, rule_A] line_C_P)"
          "list_all (\<lambda>c. c = rule_B \<or> specificity c < specificity rule_B) (candidates [rule_B, rule_A] line_C_P)"
    by code_simp+
  have f: "explicitAccountId line_other = None" "candidates [rule_A, rule_B] line_other = []"
          "productDefaultAccountId line_other = Some ''account-D''"
          "rule_analyticalAccountId rule_B = ''account-B''"
    by code_simp+
  have h1: "resolveAnalyticalAccount [rule_A, rule_B] ?x = Some ''account-X''"
    using a analytical_account_resolution[where a = ?x and x = "''account-X''" and rules = "[rule_A, rule_B]"]
    by blast
  have h2: "\<exists>r. r \<in> set (candidates [rule_A, rule_B] line_C_P)
         \<and> resolveAnalyticalAccount [rule_A, rule_B] line_C_P = Some (rule_analyticalAccountId r)
         \<and> list_all (\<lambda>c. specificity c \<le> specificity r) (candidates [rule_A, rule_B] line_C_P)"
    using b analytical_account_resolution[where a = line_C_P and rules = "[rule_A, rule_B]"]
    by blast
  have "resolveAnalyticalAccount [rule_A, rule_B] line_C_P = Some (rule_analyticalAccountId rule_B)"
    using b(1) d analytical_account_resolution[where a = line_C_P and rules = "[rule_A, rule_B]" and b = rule_B]
    by blast
  then have h3: "resolveAnalyticalAccount [rule_A, rule_B] line_C_P = Some ''account-B''"
    by (simp only: f(4))
  have "resolveAnalyticalAccount [rule_B, rule_A] line_C_P = Some (rule_analyticalAccountId rule_B)"
    using b(1) e analytical_account_resolution[where a = line_C_P and rules = "[rule_B, rule_A]" and b = rule_B]
    by blast
  then have h4: "resolveAnalyticalAccount [rule_B, rule_A] line_C_P = Some ''account-B''"
    by (simp only: f(4))
  have "resolveAnalyticalAccount [rule_A, rule_B] line_other = productDefaultAccountId line_other"
    using f(1,2) analytical_account_resolution[where a = line_other and rules = "[rule_A, rule_B]"]
    by blast
  then have h5: "resolveAnalyticalAccount [rule_A, rule_B] line_other = Some ''account-D''"
    by (simp only: f(3))
  from a b c d e f(1,2) h1 h2 h3 h4 h5 show ?thesis by blast
qed


end
